theory Spec2Isabelle
  imports Complex_Main "HOL-Library.Char_ord" "HOL-Library.List_Lexorder"
begin

section \<open>JavaScript values and the primitives the server uses\<close>

text \<open>
  Strings are lists of \<^typ>\<open>char\<close>; a character stands for a UTF-16 code unit below 256
  (the Latin-1 range), on which \<open>trim\<close>, \<open>toLowerCase\<close>, \<open>parseInt\<close> and the default
  ordering of \<open>Array.prototype.sort\<close> are modelled exactly. Numbers that the server only
  passes through (the financial values) are reals; years are unbounded integers
  (\<open>parseInt\<close> yields an integral double, exact below \<open>2^53\<close>). \<open>NaN\<close> and the
  infinities are not values of the model.
\<close>

datatype jsval =
    JUndefined
  | JNull
  | JBool bool
  | JNum real
  | JStr string
  | JArr "jsval list"
  | JObj "(string \<times> jsval) list"

datatype js_error = TypeError string

text \<open>\<open>!v\<close> is \<open>\<not> truthy v\<close>.\<close>

fun truthy :: "jsval \<Rightarrow> bool" where
  "truthy JUndefined = False"
| "truthy JNull = False"
| "truthy (JBool b) = b"
| "truthy (JNum n) = (n \<noteq> 0)"
| "truthy (JStr s) = (s \<noteq> [])"
| "truthy (JArr xs) = True"
| "truthy (JObj kvs) = True"

fun typeof :: "jsval \<Rightarrow> string" where
  "typeof JUndefined = ''undefined''"
| "typeof JNull = ''object''"
| "typeof (JBool b) = ''boolean''"
| "typeof (JNum n) = ''number''"
| "typeof (JStr s) = ''string''"
| "typeof (JArr xs) = ''object''"
| "typeof (JObj kvs) = ''object''"

text \<open>\<open>a || b\<close> on values.\<close>

definition or_else :: "jsval \<Rightarrow> jsval \<Rightarrow> jsval" where
  "or_else a b = (if truthy a then a else b)"

text \<open>Decimal rendering of an array index, as used for the keys of arrays and strings.\<close>

fun index_key :: "nat \<Rightarrow> string" where
  "index_key n =
     (if n < 10 then [char_of (48 + n)]
      else index_key (n div 10) @ [char_of (48 + n mod 10)])"

text \<open>
  The own enumerable string-keyed properties, in the order \<open>Object.entries\<close> yields them.
  An object is given by its property list in that order; an array and a string have their
  indices as keys; numbers and booleans have none.
\<close>

fun own_entries :: "jsval \<Rightarrow> (string \<times> jsval) list" where
  "own_entries (JObj kvs) = kvs"
| "own_entries (JArr xs) = zip (map index_key [0..<length xs]) xs"
| "own_entries (JStr s) = zip (map index_key [0..<length s]) (map (\<lambda>c. JStr [c]) s)"
| "own_entries v = []"

fun Object_entries :: "jsval \<Rightarrow> js_error + (string \<times> jsval) list" where
  "Object_entries JUndefined = Inl (TypeError ''Cannot convert undefined or null to object'')"
| "Object_entries JNull = Inl (TypeError ''Cannot convert undefined or null to object'')"
| "Object_entries v = Inr (own_entries v)"

text \<open>White space and line terminators among the code units below 256.\<close>

definition isWhiteSpace :: "char \<Rightarrow> bool" where
  "isWhiteSpace c = ((of_char c :: nat) \<in> {9, 10, 11, 12, 13, 32, 160})"

definition trim :: "string \<Rightarrow> string" where
  "trim s = rev (dropWhile isWhiteSpace (rev (dropWhile isWhiteSpace s)))"

definition toLowerChar :: "char \<Rightarrow> char" where
  "toLowerChar c =
     (let n = (of_char c :: nat)
      in if (65 \<le> n \<and> n \<le> 90) \<or> (192 \<le> n \<and> n \<le> 222 \<and> n \<noteq> 215)
         then char_of (n + 32) else c)"

definition toLowerCase :: "string \<Rightarrow> string" where
  "toLowerCase s = map toLowerChar s"

definition isDigit :: "char \<Rightarrow> bool" where
  "isDigit c = (48 \<le> (of_char c :: nat) \<and> (of_char c :: nat) \<le> 57)"

definition digits_value :: "string \<Rightarrow> int" where
  "digits_value ds = foldl (\<lambda>acc c. 10 * acc + (of_char c - 48)) 0 ds"

text \<open>
  \<open>parseInt(s, 10)\<close>: skip leading white space, read an optional sign, then the longest
  run of decimal digits; \<open>None\<close> is \<open>NaN\<close> (no digit at that place).
\<close>

definition parseInt :: "string \<Rightarrow> int option" where
  "parseInt s =
     (let t = dropWhile isWhiteSpace s;
          neg = (t \<noteq> [] \<and> hd t = CHR ''-'');
          u = (if t \<noteq> [] \<and> (hd t = CHR ''+'' \<or> hd t = CHR ''-'') then tl t else t);
          ds = takeWhile isDigit u
      in if ds = [] then None
         else Some (if neg then - digits_value ds else digits_value ds))"

section \<open>The dataset normalizer: \<open>parseData\<close>\<close>

text \<open>
  A raw company record. \<open>Ticker\<close> and \<open>Company name\<close> are strings when present (\<open>None\<close>:
  the property is absent); \<open>Financials\<close> is any value (\<open>JUndefined\<close> when absent).
  The dataset itself (\<open>companyData\<close>) is a parameter of the model.
\<close>

record raw_company =
  Ticker :: "string option"
  Company_name :: "string option"
  Financials :: jsval

text \<open>One element of \<open>records\<close>; \<open>val\<close> is the source's \<open>value\<close>.\<close>

record observation =
  company :: string
  ticker :: string
  field :: string
  year :: int
  val :: real

text \<open>
  The three locals that the loops of \<open>parseData\<close> mutate, and also the shape of its
  result. The two \<open>Set\<close>s are kept as lists in insertion order.
\<close>

record parsed =
  records :: "observation list"
  companies :: "string list"
  metrics :: "string list"

definition set_add :: "'a \<Rightarrow> 'a list \<Rightarrow> 'a list" where
  "set_add x s = (if x \<in> set s then s else s @ [x])"

text \<open>\<open>x || ''\<close> for an optional string property.\<close>

definition str_or_empty :: "string option \<Rightarrow> string" where
  "str_or_empty p = (case p of None \<Rightarrow> [] | Some s \<Rightarrow> s)"

text \<open>
  The innermost loop, over \<open>Object.entries(years)\<close>. The test
  \<open>typeof value !== 'number'\<close> is the case distinction on \<open>JNum\<close>.
\<close>

fun for_years :: "string \<Rightarrow> string \<Rightarrow> string \<Rightarrow> (string \<times> jsval) list \<Rightarrow> parsed \<Rightarrow> parsed" where
  "for_years companyName tick metric [] st = st"
| "for_years companyName tick metric ((yearStr, v) # rest) st =
     (case v of
        JNum n \<Rightarrow>
          (case parseInt yearStr of
             None \<Rightarrow> for_years companyName tick metric rest st
           | Some y \<Rightarrow>
               for_years companyName tick metric rest
                 (st\<lparr>records := records st @
                    [\<lparr>company = companyName, ticker = tick, field = toLowerCase metric,
                      year = y, val = n\<rparr>]\<rparr>))
      | _ \<Rightarrow> for_years companyName tick metric rest st)"

text \<open>The middle loop, over \<open>Object.entries(financials)\<close>.\<close>

fun for_metrics :: "string \<Rightarrow> string \<Rightarrow> (string \<times> jsval) list \<Rightarrow> parsed \<Rightarrow> js_error + parsed" where
  "for_metrics companyName tick [] st = Inr st"
| "for_metrics companyName tick ((metric, years) # rest) st =
     (if \<not> truthy years \<or> typeof years \<noteq> ''object'' then for_metrics companyName tick rest st
      else
        (case Object_entries years of
           Inl e \<Rightarrow> Inl e
         | Inr ys \<Rightarrow>
             for_metrics companyName tick rest
               (for_years companyName tick metric ys (st\<lparr>metrics := set_add metric (metrics st)\<rparr>))))"

text \<open>The outer loop, over \<open>rawData\<close>.\<close>

fun for_companies :: "raw_company list \<Rightarrow> parsed \<Rightarrow> js_error + parsed" where
  "for_companies [] st = Inr st"
| "for_companies (companyData # rest) st =
     (let tick = str_or_empty (Ticker companyData);
          companyName = str_or_empty (Company_name companyData)
      in if tick = [] \<or> companyName = [] then for_companies rest st
         else
           (case Object_entries (or_else (Financials companyData) (JObj [])) of
              Inl e \<Rightarrow> Inl e
            | Inr fs \<Rightarrow>
                (case for_metrics companyName tick fs
                        (st\<lparr>companies := set_add companyName (companies st)\<rparr>) of
                   Inl e \<Rightarrow> Inl e
                 | Inr st' \<Rightarrow> for_companies rest st')))"

definition parseData :: "raw_company list \<Rightarrow> js_error + parsed" where
  "parseData rawData =
     (case for_companies rawData \<lparr>records = [], companies = [], metrics = []\<rparr> of
        Inl e \<Rightarrow> Inl e
      | Inr st \<Rightarrow>
          Inr \<lparr>records = records st, companies = sort (companies st), metrics = sort (metrics st)\<rparr>)"

section \<open>The HTTP endpoints\<close>

text \<open>
  \<open>/api/companies\<close> and \<open>/api/metrics\<close>: status 200 with \<open>count\<close> and the list, or status 500
  with the error text when \<open>parseData\<close> throws.
\<close>

datatype list_response =
    ListOk nat "string list"
  | ListError string

definition api_companies :: "raw_company list \<Rightarrow> list_response" where
  "api_companies rawData =
     (case parseData rawData of
        Inl (TypeError msg) \<Rightarrow> ListError msg
      | Inr d \<Rightarrow> ListOk (length (companies d)) (companies d))"

definition api_metrics :: "raw_company list \<Rightarrow> list_response" where
  "api_metrics rawData =
     (case parseData rawData of
        Inl (TypeError msg) \<Rightarrow> ListError msg
      | Inr d \<Rightarrow> ListOk (length (metrics d)) (metrics d))"

record DataPoint =
  p_year :: int
  p_value :: real

text \<open>
  The responses of \<open>/api/data\<close>, by status:
  \<open>Status400 company metric\<close> (the \<open>received\<close> pair),
  \<open>Status404 error company metric found\<close>,
  \<open>Status200 name ticker metric points count found\<close> and
  \<open>Status500 error\<close>.
\<close>

datatype data_response =
    Status400 string string
  | Status404 string string string bool
  | Status200 string string string "DataPoint list" nat bool
  | Status500 string

text \<open>\<open>String(req.query.p || '').trim()\<close> for a query parameter that is absent or a string.\<close>

definition query_param :: "string option \<Rightarrow> string" where
  "query_param p = trim (str_or_empty p)"

definition matches :: "string \<Rightarrow> string \<Rightarrow> observation \<Rightarrow> bool" where
  "matches c m r =
     (toLowerCase (company r) = toLowerCase c \<and> toLowerCase (field r) = toLowerCase m)"

text \<open>
  The handler of \<open>/api/data\<close>, given what its call of \<open>parseData()\<close> yields. The sort is
  stable, as \<open>Array.prototype.sort\<close> is.
\<close>

definition data_handler :: "js_error + parsed \<Rightarrow> string option \<Rightarrow> string option \<Rightarrow> data_response" where
  "data_handler parse q_company q_metric =
     (let c = query_param q_company;
          m = toLowerCase (query_param q_metric)
      in if c = [] \<or> m = [] then Status400 c m
         else
           (case parse of
              Inl (TypeError msg) \<Rightarrow> Status500 msg
            | Inr d \<Rightarrow>
                (case filter (matches c m) (records d) of
                   [] \<Rightarrow>
                     Status404
                       (''No data found for company '' @ [CHR 0x27] @ c @ [CHR 0x27] @
                        '' and metric '' @ [CHR 0x27] @ m @ [CHR 0x27])
                       c m False
                 | r0 # rs \<Rightarrow>
                     (let points = sort_key p_year
                            (map (\<lambda>r. \<lparr>p_year = year r, p_value = val r\<rparr>) (r0 # rs))
                      in Status200 c (ticker r0) m points (length points) (0 < length points)))))"

definition api_data :: "raw_company list \<Rightarrow> string option \<Rightarrow> string option \<Rightarrow> data_response" where
  "api_data rawData q_company q_metric = data_handler (parseData rawData) q_company q_metric"

text \<open>The dataset of the scenario: one company, one metric, two years.\<close>

definition acme_raw :: "raw_company list" where
  "acme_raw =
     [\<lparr>Ticker = Some ''ACME'', Company_name = Some ''Acme Co'',
       Financials = JObj [(''Revenue'', JObj [(''2020'', JNum 100), (''2021'', JNum 150)])]\<rparr>]"

text \<open>A dataset whose only company has a metric without any year.\<close>

definition bare_raw :: "raw_company list" where
  "bare_raw =
     [\<lparr>Ticker = Some ''BARE'', Company_name = Some ''Bare Co'',
       Financials = JObj [(''Revenue'', JObj [])]\<rparr>]"

subsection \<open>What the normalizer is meant to compute\<close>

text \<open>A raw record is kept when both its ticker and its company name are non-empty.\<close>

definition valid_company :: "raw_company \<Rightarrow> bool" where
  "valid_company r = (str_or_empty (Ticker r) \<noteq> [] \<and> str_or_empty (Company_name r) \<noteq> [])"

text \<open>A year mapping is a proper mapping when it is a non-null object.\<close>

definition is_mapping :: "jsval \<Rightarrow> bool" where
  "is_mapping years = (truthy years \<and> typeof years = ''object'')"

definition financials_of :: "raw_company \<Rightarrow> (string \<times> jsval) list" where
  "financials_of r = own_entries (or_else (Financials r) (JObj []))"

text \<open>The metric names of an entry list whose year mapping is a proper mapping.\<close>

definition mapped_metrics :: "(string \<times> jsval) list \<Rightarrow> string list" where
  "mapped_metrics fs = map fst (filter (\<lambda>(m, years). is_mapping years) fs)"

text \<open>The (metric, year, value) triples of an entry list, in enumeration order.\<close>

definition entry_triples :: "(string \<times> jsval) list \<Rightarrow> (string \<times> string \<times> jsval) list" where
  "entry_triples fs =
     concat (map (\<lambda>(m, years).
                    if is_mapping years then map (\<lambda>(y, v). (m, y, v)) (own_entries years) else [])
                 fs)"

definition triples :: "raw_company \<Rightarrow> (string \<times> string \<times> jsval) list" where
  "triples r = entry_triples (financials_of r)"

text \<open>The observation of one triple, if it has one.\<close>

fun observation_of :: "string \<Rightarrow> string \<Rightarrow> string \<times> string \<times> jsval \<Rightarrow> observation option" where
  "observation_of companyName tick (m, y, v) =
     (case v of
        JNum n \<Rightarrow>
          (case parseInt y of
             None \<Rightarrow> None
           | Some k \<Rightarrow>
               Some \<lparr>company = companyName, ticker = tick, field = toLowerCase m, year = k, val = n\<rparr>)
      | _ \<Rightarrow> None)"

definition company_observations :: "raw_company \<Rightarrow> observation list" where
  "company_observations r =
     List.map_filter
       (observation_of (str_or_empty (Company_name r)) (str_or_empty (Ticker r))) (triples r)"

subsection \<open>Reading a response of \<open>/api/data\<close>\<close>

fun status :: "data_response \<Rightarrow> nat" where
  "status (Status400 c m) = 400"
| "status (Status404 e c m f) = 404"
| "status (Status200 n t m ps k f) = 200"
| "status (Status500 e) = 500"

fun ticker_and_points :: "data_response \<Rightarrow> (string \<times> DataPoint list) option" where
  "ticker_and_points (Status200 n t m ps k f) = Some (t, ps)"
| "ticker_and_points r = None"

definition to_point :: "observation \<Rightarrow> DataPoint" where
  "to_point r = \<lparr>p_year = year r, p_value = val r\<rparr>"

definition not_found_message :: "string \<Rightarrow> string \<Rightarrow> string" where
  "not_found_message c m =
     ''No data found for company '' @ [CHR 0x27] @ c @ [CHR 0x27] @
     '' and metric '' @ [CHR 0x27] @ m @ [CHR 0x27]"

text \<open>The names that the two lists are built from, in the order of first insertion.\<close>

definition company_names :: "raw_company list \<Rightarrow> string list" where
  "company_names raw = map (\<lambda>r. str_or_empty (Company_name r)) (filter valid_company raw)"

definition metric_names :: "raw_company list \<Rightarrow> string list" where
  "metric_names raw = concat (map (\<lambda>r. mapped_metrics (financials_of r)) (filter valid_company raw))"

text \<open>
  A dataset with a record without ticker, and a record whose financials hold a metric that
  is no mapping, a value that is no number and a year key without digits.
\<close>

definition messy_raw :: "raw_company list" where
  "messy_raw =
     [\<lparr>Ticker = None, Company_name = Some ''Ghost'',
       Financials = JObj [(''Revenue'', JObj [(''2020'', JNum 1)])]\<rparr>,
      \<lparr>Ticker = Some ''MSY'', Company_name = Some ''Messy'',
       Financials =
         JObj [(''Debt'', JNum 5),
               (''Net Income'', JObj [(''2019'', JStr ''n/a''), (''FY'', JNum 7), (''2021'', JNum 9)])]\<rparr>]"

text \<open>Observations of one company and metric out of year order, with another company between.\<close>

definition shuffled :: parsed where
  "shuffled =
     \<lparr>records =
        [\<lparr>company = ''Acme Co'', ticker = ''ACME'', field = ''revenue'', year = 2021, val = 150\<rparr>,
         \<lparr>company = ''Zeta'', ticker = ''ZT'', field = ''revenue'', year = 2018, val = 1\<rparr>,
         \<lparr>company = ''Acme Co'', ticker = ''ACME'', field = ''revenue'', year = 2019, val = 90\<rparr>,
         \<lparr>company = ''Acme Co'', ticker = ''ACME'', field = ''revenue'', year = 2020, val = 100\<rparr>],
      companies = [''Acme Co'', ''Zeta''],
      metrics = [''Revenue'']\<rparr>"

section \<open>The fetch client: retry after a failed attempt\<close>

definition RETRY_DELAY :: nat where
  "RETRY_DELAY = 2000"

definition MAX_RETRIES :: nat where
  "MAX_RETRIES = 3"

text \<open>
  What a rejected attempt throws: an \<open>Error\<close> with its message, or a value that is no
  \<open>Error\<close>, with its \<open>message\<close> property if it has one.
\<close>

datatype thrown = Error string | NonError "string option"

datatype 'a attempt = Resolved 'a | Rejected thrown

text \<open>
  What a logical request does, in order: start the attempt with a given \<open>retryCount\<close>,
  wait for a number of milliseconds, show an error, or store the payload.
\<close>

datatype 'a event = Fetch nat | Delay nat | SetError string | SetResult 'a

text \<open>\<open>e?.message || 'Failed to load data. Please try again.'\<close>\<close>

definition message_or_default :: "thrown \<Rightarrow> string" where
  "message_or_default e =
     (case (case e of Error msg \<Rightarrow> Some msg | NonError p \<Rightarrow> p) of
        None \<Rightarrow> ''Failed to load data. Please try again.''
      | Some msg \<Rightarrow> if msg \<noteq> [] then msg else ''Failed to load data. Please try again.'')"

text \<open>
  \<open>fetchData\<close>: the outcome of the attempt made with a given \<open>retryCount\<close> is given by
  \<open>outcome\<close>.
\<close>

function fetchData :: "string \<Rightarrow> string \<Rightarrow> (nat \<Rightarrow> 'a attempt) \<Rightarrow> nat \<Rightarrow> 'a event list" where
  "fetchData selectedCompany selectedMetric outcome retryCount =
     (if selectedCompany = [] \<or> selectedMetric = [] then []
      else
        Fetch retryCount #
        (case outcome retryCount of
           Resolved d \<Rightarrow> [SetResult d]
         | Rejected e \<Rightarrow>
             if retryCount < MAX_RETRIES - 1
             then Delay (RETRY_DELAY * (retryCount + 1)) #
                  fetchData selectedCompany selectedMetric outcome (retryCount + 1)
             else [SetError (message_or_default e)]))"
  by pat_completeness auto
termination
  by (relation "measure (\<lambda>(c, m, outcome, retryCount). MAX_RETRIES - retryCount)")
     (auto simp: MAX_RETRIES_def)

text \<open>\<open>e instanceof Error ? `${e.message} Please try refreshing the page.` : 'Failed to load data'\<close>\<close>

definition final_message :: "thrown \<Rightarrow> string" where
  "final_message e =
     (case e of
        Error msg \<Rightarrow> msg @ '' Please try refreshing the page.''
      | NonError p \<Rightarrow> ''Failed to load data'')"

text \<open>
  \<open>fetchOptions\<close>: \<open>mounted_at_entry k\<close> and \<open>mounted_after k\<close> are the values of
  \<open>isMounted\<close> read at the start of the call with \<open>retryCount = k\<close> and after its attempt
  has settled.
\<close>

function fetchOptions :: "(nat \<Rightarrow> bool) \<Rightarrow> (nat \<Rightarrow> bool) \<Rightarrow> (nat \<Rightarrow> 'a attempt) \<Rightarrow> nat \<Rightarrow> 'a event list" where
  "fetchOptions mounted_at_entry mounted_after outcome retryCount =
     (if \<not> mounted_at_entry retryCount then []
      else
        Fetch retryCount #
        (case outcome retryCount of
           Resolved d \<Rightarrow> if \<not> mounted_after retryCount then [] else [SetResult d]
         | Rejected e \<Rightarrow>
             if \<not> mounted_after retryCount then []
             else if retryCount < MAX_RETRIES - 1
             then Delay (RETRY_DELAY * (retryCount + 1)) #
                  fetchOptions mounted_at_entry mounted_after outcome (retryCount + 1)
             else [SetError (final_message e)]))"
  by pat_completeness auto
termination
  by (relation "measure (\<lambda>(me, ma, outcome, retryCount). MAX_RETRIES - retryCount)")
     (auto simp: MAX_RETRIES_def)

declare fetchData.simps [simp del]
declare fetchOptions.simps [simp del]

fun is_Fetch :: "'a event \<Rightarrow> bool" where
  "is_Fetch (Fetch k) = True"
| "is_Fetch e = False"

text \<open>The waits of a trace, in order.\<close>

fun delays :: "'a event list \<Rightarrow> nat list" where
  "delays [] = []"
| "delays (Delay ms # es) = ms # delays es"
| "delays (e # es) = delays es"

fun is_Delay :: "'a event \<Rightarrow> bool" where
  "is_Delay (Delay ms) = True"
| "is_Delay e = False"

text \<open>The attempts and waits of a trace, in order, without what is shown or stored.\<close>

definition attempts_and_waits :: "'a event list \<Rightarrow> 'a event list" where
  "attempts_and_waits tr = filter (\<lambda>e. is_Fetch e \<or> is_Delay e) tr"

text \<open>
  The longest run of attempts and waits that the retry policy allows: three attempts, with
  a wait of \<open>RETRY_DELAY\<close> times the number of the failed attempt before the next one.
\<close>

definition schedule :: "'a event list" where
  "schedule = [Fetch 0, Delay (RETRY_DELAY * 1), Fetch 1, Delay (RETRY_DELAY * 2), Fetch 2]"

fun failed :: "'a attempt \<Rightarrow> bool" where
  "failed (Rejected e) = True"
| "failed (Resolved d) = False"

text \<open>
  \<open>carried_on me ma outcome k\<close>: each of the first \<open>k\<close> attempts was started with the
  component mounted, failed, and left the component mounted.
\<close>

fun carried_on :: "(nat \<Rightarrow> bool) \<Rightarrow> (nat \<Rightarrow> bool) \<Rightarrow> (nat \<Rightarrow> 'a attempt) \<Rightarrow> nat \<Rightarrow> bool" where
  "carried_on me ma outcome 0 = True"
| "carried_on me ma outcome (Suc k) =
     (carried_on me ma outcome k \<and> me k \<and> failed (outcome k) \<and> ma k)"

text \<open>Every attempt is rejected with the same \<open>Error\<close>.\<close>

definition always_rejected :: "string \<Rightarrow> nat \<Rightarrow> unit attempt" where
  "always_rejected msg k = Rejected (Error msg)"

definition always_mounted :: "nat \<Rightarrow> bool" where
  "always_mounted k = True"

section \<open>The chart renderer\<close>

text \<open>
  Coordinates are reals. A quotient whose divisor is zero is \<open>NaN\<close> or an infinity in
  the source, which is no real: \<open>js_div\<close> yields \<open>None\<close> there, and so does everything
  computed from it.
\<close>

definition js_div :: "real \<Rightarrow> real \<Rightarrow> real option" where
  "js_div a b = (if b = 0 then None else Some (a / b))"

text \<open>\<open>a || b\<close> on numbers.\<close>

definition num_or :: "real \<Rightarrow> real \<Rightarrow> real" where
  "num_or a b = (if a = 0 then b else a)"

definition width :: real where "width = 800"
definition height :: real where "height = 420"
definition margin_top :: real where "margin_top = 30"
definition margin_right :: real where "margin_right = 30"
definition margin_bottom :: real where "margin_bottom = 40"
definition margin_left :: real where "margin_left = 70"

text \<open>\<open>Math.min(...xs)\<close> and \<open>Math.max(...xs)\<close>; with no argument they are infinities.\<close>

fun Math_min :: "real list \<Rightarrow> real option" where
  "Math_min [] = None"
| "Math_min (x # xs) = Some (fold min xs x)"

fun Math_max :: "real list \<Rightarrow> real option" where
  "Math_max [] = None"
| "Math_max (x # xs) = Some (fold max xs x)"

definition xScale :: "real \<Rightarrow> real \<Rightarrow> real \<Rightarrow> real option" where
  "xScale minYear maxYear y =
     (let rw = width - margin_left - margin_right
      in map_option (\<lambda>q. margin_left + q * rw) (js_div (y - minYear) (num_or (maxYear - minYear) 1)))"

definition yScale :: "real \<Rightarrow> real \<Rightarrow> real \<Rightarrow> real option" where
  "yScale minVal maxVal v =
     (let rh = height - margin_top - margin_bottom
      in map_option (\<lambda>q. margin_top + rh - q * rh) (js_div (v - minVal) (num_or (maxVal - minVal) 1)))"

text \<open>
  A label \<open>Label x d s\<close> is the text \<open>x.toFixed(d) + s\<close>.
\<close>

datatype label = Label real nat string

definition formatNumber :: "real \<Rightarrow> label" where
  "formatNumber n =
     (if \<bar>n\<bar> \<ge> 1000000000 then Label (n / 1000000000) 1 ''B''
      else if \<bar>n\<bar> \<ge> 1000000 then Label (n / 1000000) 1 ''M''
      else if \<bar>n\<bar> \<ge> 1000 then Label (n / 1000) 1 ''K''
      else Label n 0 [])"

definition yTicks :: nat where
  "yTicks = 5"

definition yTickVals :: "real \<Rightarrow> real \<Rightarrow> real list" where
  "yTickVals minVal maxVal =
     map (\<lambda>i. minVal + (real i * (maxVal - minVal)) / real yTicks) [0..<yTicks + 1]"

text \<open>
  What \<open>LineChart\<close> draws from the points: the commands of the polyline (\<open>M\<close> or \<open>L\<close> with
  a position), the value ticks (value, height on the axis, label) and the markers
  (centre and radius). The title, the axes and the year ticks are left out.
\<close>

record chart =
  pathD :: "(string \<times> real \<times> real) list"
  valueTicks :: "(real \<times> real \<times> label) list"
  dots :: "(real \<times> real \<times> real) list"

definition place :: "real \<Rightarrow> real \<Rightarrow> real \<Rightarrow> real \<Rightarrow> DataPoint \<Rightarrow> (real \<times> real) option" where
  "place minYear maxYear minVal maxVal p =
     (case (xScale minYear maxYear (real_of_int (p_year p)), yScale minVal maxVal (p_value p)) of
        (Some x, Some y) \<Rightarrow> Some (x, y)
      | _ \<Rightarrow> None)"

definition place_tick :: "real \<Rightarrow> real \<Rightarrow> real \<Rightarrow> (real \<times> real \<times> label) option" where
  "place_tick minVal maxVal v =
     map_option (\<lambda>y. (v, y, formatNumber v)) (yScale minVal maxVal v)"

definition LineChart :: "DataPoint list \<Rightarrow> chart option" where
  "LineChart points =
     (let years = map (\<lambda>p. real_of_int (p_year p)) points;
          vals = map p_value points
      in case (Math_min years, Math_max years, Math_min vals, Math_max vals) of
           (Some minYear, Some maxYear, Some minVal, Some maxVal) \<Rightarrow>
             (case (those (map (place minYear maxYear minVal maxVal) points),
                    those (map (place_tick minVal maxVal) (yTickVals minVal maxVal))) of
                (Some xys, Some ticks) \<Rightarrow>
                  Some \<lparr>pathD = map (\<lambda>(i, x, y). (if i = 0 then ''M'' else ''L'', x, y))
                                 (zip [0..<length xys] xys),
                        valueTicks = ticks,
                        dots = map (\<lambda>(x, y). (x, y, 3)) xys\<rparr>
              | _ \<Rightarrow> None)
         | _ \<Rightarrow> None)"

definition tick_value :: "real \<times> real \<times> label \<Rightarrow> real" where
  "tick_value t = fst t"

definition tick_label :: "real \<times> real \<times> label \<Rightarrow> label" where
  "tick_label t = snd (snd t)"

text \<open>The chart of one point has its only position at the left margin and on the base line.\<close>

definition one_point_chart :: "DataPoint \<Rightarrow> chart" where
  "one_point_chart p =
     \<lparr>pathD = [(''M'', 70, 380)],
      valueTicks = replicate 6 (p_value p, 380, formatNumber (p_value p)),
      dots = [(70, 380, 3)]\<rparr>"

text \<open>
  The position of a point and the tick of a value once the guarded quotients are taken,
  and the least and greatest year and value of a non-empty list of points.
\<close>

definition position :: "real \<Rightarrow> real \<Rightarrow> real \<Rightarrow> real \<Rightarrow> DataPoint \<Rightarrow> real \<times> real" where
  "position minYear maxYear minVal maxVal p =
     (70 + (real_of_int (p_year p) - minYear) / num_or (maxYear - minYear) 1 * 700,
      380 - (p_value p - minVal) / num_or (maxVal - minVal) 1 * 350)"

definition tick :: "real \<Rightarrow> real \<Rightarrow> real \<Rightarrow> real \<times> real \<times> label" where
  "tick minVal maxVal v = (v, 380 - (v - minVal) / num_or (maxVal - minVal) 1 * 350, formatNumber v)"

definition minYear_of :: "DataPoint list \<Rightarrow> real" where
  "minYear_of points = Min (set (map (\<lambda>p. real_of_int (p_year p)) points))"

definition maxYear_of :: "DataPoint list \<Rightarrow> real" where
  "maxYear_of points = Max (set (map (\<lambda>p. real_of_int (p_year p)) points))"

definition minVal_of :: "DataPoint list \<Rightarrow> real" where
  "minVal_of points = Min (set (map p_value points))"

definition maxVal_of :: "DataPoint list \<Rightarrow> real" where
  "maxVal_of points = Max (set (map p_value points))"

definition two_points :: "DataPoint list" where
  "two_points = [\<lparr>p_year = 2020, p_value = 100\<rparr>, \<lparr>p_year = 2021, p_value = 150000\<rparr>]"

definition same_year_points :: "DataPoint list" where
  "same_year_points = [\<lparr>p_year = 2020, p_value = 100\<rparr>, \<lparr>p_year = 2020, p_value = 200\<rparr>]"

section \<open>Properties of the normalizer\<close>

lemma map_filter_append:
  "List.map_filter f (xs @ ys) = List.map_filter f xs @ List.map_filter f ys"
  by (simp add: List.map_filter_def)

lemma for_years_records:
  "records (for_years cn t m ys st) =
     records st @ List.map_filter (observation_of cn t) (map (\<lambda>(y, v). (m, y, v)) ys)"
  by (induction ys arbitrary: st)
     (auto split: jsval.splits option.splits)

lemma for_years_companies: "companies (for_years cn t m ys st) = companies st"
  by (induction ys arbitrary: st) (auto split: jsval.splits option.splits)

lemma for_years_metrics: "metrics (for_years cn t m ys st) = metrics st"
  by (induction ys arbitrary: st) (auto split: jsval.splits option.splits)

lemma Object_entries_truthy: "truthy v \<Longrightarrow> Object_entries v = Inr (own_entries v)"
  by (cases v) auto

lemma entry_triples_Cons:
  "entry_triples ((m, years) # fs) =
     (if is_mapping years then map (\<lambda>(y, v). (m, y, v)) (own_entries years) else []) @
     entry_triples fs"
  by (simp add: entry_triples_def)

lemma mapped_metrics_Cons:
  "mapped_metrics ((m, years) # fs) =
     (if is_mapping years then m # mapped_metrics fs else mapped_metrics fs)"
  by (simp add: mapped_metrics_def)

lemma for_metrics_result:
  "\<exists>st'. for_metrics cn t fs st = Inr st' \<and>
         records st' = records st @ List.map_filter (observation_of cn t) (entry_triples fs) \<and>
         companies st' = companies st \<and>
         metrics st' = fold set_add (mapped_metrics fs) (metrics st)"
proof (induction fs arbitrary: st)
  case Nil
  show ?case by (simp add: entry_triples_def mapped_metrics_def)
next
  case (Cons a fs)
  obtain m years where a: "a = (m, years)" by (cases a)
  show ?case
  proof (cases "is_mapping years")
    case False
    have "for_metrics cn t (a # fs) st = for_metrics cn t fs st"
      using False a by (auto simp: is_mapping_def)
    moreover have "entry_triples (a # fs) = entry_triples fs"
      using False a by (simp add: entry_triples_Cons)
    moreover have "mapped_metrics (a # fs) = mapped_metrics fs"
      using False a by (simp add: mapped_metrics_Cons)
    ultimately show ?thesis using Cons.IH [of st] by simp
  next
    case True
    then have oe: "Object_entries years = Inr (own_entries years)"
      by (simp add: is_mapping_def Object_entries_truthy)
    let ?st1 = "for_years cn t m (own_entries years) (st\<lparr>metrics := set_add m (metrics st)\<rparr>)"
    from Cons.IH [of ?st1] obtain st' where
      st': "for_metrics cn t fs ?st1 = Inr st'"
           "records st' = records ?st1 @ List.map_filter (observation_of cn t) (entry_triples fs)"
           "companies st' = companies ?st1"
           "metrics st' = fold set_add (mapped_metrics fs) (metrics ?st1)"
      by blast
    have "for_metrics cn t (a # fs) st = Inr st'"
      using True oe st'(1) a by (simp add: is_mapping_def)
    moreover have "records st' =
        records st @ List.map_filter (observation_of cn t) (entry_triples (a # fs))"
      using st'(2) True a
      by (simp add: for_years_records entry_triples_Cons map_filter_append)
    moreover have "companies st' = companies st"
      using st'(3) by (simp add: for_years_companies)
    moreover have "metrics st' = fold set_add (mapped_metrics (a # fs)) (metrics st)"
      using st'(4) True a by (simp add: mapped_metrics_Cons for_years_metrics)
    ultimately show ?thesis by blast
  qed
qed

lemma for_companies_result:
  "\<exists>st'. for_companies raw st = Inr st' \<and>
         records st' = records st @ concat (map company_observations (filter valid_company raw)) \<and>
         companies st' = fold set_add (company_names raw) (companies st) \<and>
         metrics st' = fold set_add (metric_names raw) (metrics st)"
proof (induction raw arbitrary: st)
  case Nil
  show ?case by (simp add: company_names_def metric_names_def)
next
  case (Cons r raw)
  show ?case
  proof (cases "valid_company r")
    case False
    have "for_companies (r # raw) st = for_companies raw st"
      using False by (auto simp: valid_company_def Let_def)
    then show ?thesis using Cons.IH [of st] False
      by (simp add: company_names_def metric_names_def)
  next
    case True
    let ?cn = "str_or_empty (Company_name r)"
    let ?t = "str_or_empty (Ticker r)"
    have oe: "Object_entries (or_else (Financials r) (JObj [])) = Inr (financials_of r)"
      by (simp add: financials_of_def or_else_def Object_entries_truthy)
    let ?st0 = "st\<lparr>companies := set_add ?cn (companies st)\<rparr>"
    from for_metrics_result [of ?cn ?t "financials_of r" ?st0] obtain st1 where
      st1: "for_metrics ?cn ?t (financials_of r) ?st0 = Inr st1"
           "records st1 = records ?st0 @ List.map_filter (observation_of ?cn ?t) (entry_triples (financials_of r))"
           "companies st1 = companies ?st0"
           "metrics st1 = fold set_add (mapped_metrics (financials_of r)) (metrics ?st0)"
      by blast
    from Cons.IH [of st1] obtain st' where
      st': "for_companies raw st1 = Inr st'"
           "records st' = records st1 @ concat (map company_observations (filter valid_company raw))"
           "companies st' = fold set_add (company_names raw) (companies st1)"
           "metrics st' = fold set_add (metric_names raw) (metrics st1)"
      by blast
    have "for_companies (r # raw) st = Inr st'"
      using True oe st1(1) st'(1) by (simp add: valid_company_def Let_def)
    moreover have "records st' =
        records st @ concat (map company_observations (filter valid_company (r # raw)))"
      using True st'(2) st1(2) by (simp add: company_observations_def triples_def)
    moreover have "companies st' = fold set_add (company_names (r # raw)) (companies st)"
      using True st'(3) st1(3) by (simp add: company_names_def)
    moreover have "metrics st' = fold set_add (metric_names (r # raw)) (metrics st)"
      using True st'(4) st1(4) by (simp add: metric_names_def)
    ultimately show ?thesis by blast
  qed
qed

lemma set_fold_set_add: "set (fold set_add xs s) = set xs \<union> set s"
  by (induction xs arbitrary: s) (auto simp: set_add_def)

lemma distinct_fold_set_add: "distinct s \<Longrightarrow> distinct (fold set_add xs s)"
  by (induction xs arbitrary: s) (auto simp: set_add_def)

lemma parseData_result:
  "parseData raw =
     Inr \<lparr>records = concat (map company_observations (filter valid_company raw)),
          companies = sort (fold set_add (company_names raw) []),
          metrics = sort (fold set_add (metric_names raw) [])\<rparr>"
proof -
  from for_companies_result [of raw "\<lparr>records = [], companies = [], metrics = []\<rparr>"]
  obtain st' where
    "for_companies raw \<lparr>records = [], companies = [], metrics = []\<rparr> = Inr st'"
    "records st' = concat (map company_observations (filter valid_company raw))"
    "companies st' = fold set_add (company_names raw) []"
    "metrics st' = fold set_add (metric_names raw) []"
    by auto
  then show ?thesis by (simp add: parseData_def)
qed

lemma observation_of_Some_iff:
  "(observation_of cn t (m, y, v) \<noteq> None) = (typeof v = ''number'' \<and> parseInt y \<noteq> None)"
  by (cases v) (auto split: option.splits)

lemma observation_of_fields:
  "observation_of cn t (m, y, v) = Some ob \<Longrightarrow>
     company ob = cn \<and> ticker ob = t \<and> field ob = toLowerCase m"
  by (cases v) (auto split: option.splits)

lemma entry_triples_metric:
  "(m, y, v) \<in> set (entry_triples fs) \<Longrightarrow> m \<in> set (mapped_metrics fs)"
  by (auto simp: entry_triples_def mapped_metrics_def split: if_splits) force

lemma company_observations_fields:
  assumes "ob \<in> set (company_observations r)"
  shows "company ob = str_or_empty (Company_name r) \<and>
         field ob \<in> toLowerCase ` set (mapped_metrics (financials_of r))"
proof -
  from assms obtain tr where tr: "tr \<in> set (triples r)"
    and ob: "observation_of (str_or_empty (Company_name r)) (str_or_empty (Ticker r)) tr = Some ob"
    by (auto simp: company_observations_def List.map_filter_def)
  obtain m y v where trm: "tr = (m, y, v)" by (cases tr)
  from ob trm have "company ob = str_or_empty (Company_name r)" "field ob = toLowerCase m"
    using observation_of_fields by blast+
  moreover from tr trm have "m \<in> set (mapped_metrics (financials_of r))"
    by (auto simp: triples_def dest: entry_triples_metric)
  ultimately show ?thesis by blast
qed

section \<open>Properties of the string primitives\<close>

lemma of_char_toLowerChar:
  "(of_char (toLowerChar c) :: nat) =
     (let n = of_char c
      in if (65 \<le> n \<and> n \<le> 90) \<or> (192 \<le> n \<and> n \<le> 222 \<and> n \<noteq> 215) then n + 32 else n)"
  by (auto simp: toLowerChar_def Let_def)

lemma isWhiteSpace_toLowerChar: "isWhiteSpace (toLowerChar c) = isWhiteSpace c"
  unfolding isWhiteSpace_def of_char_toLowerChar Let_def by auto

lemma dropWhile_toLowerChar:
  "dropWhile isWhiteSpace (map toLowerChar s) = map toLowerChar (dropWhile isWhiteSpace s)"
  by (simp add: dropWhile_map comp_def isWhiteSpace_toLowerChar)

lemma trim_toLowerCase: "trim (toLowerCase s) = toLowerCase (trim s)"
  by (simp add: trim_def toLowerCase_def dropWhile_toLowerChar rev_map)

lemma toLowerCase_Nil_iff: "(toLowerCase s = []) = (s = [])"
  by (simp add: toLowerCase_def)

section \<open>Properties of the query\<close>

lemma data_handler_400:
  "query_param qc = [] \<or> toLowerCase (query_param qm) = [] \<Longrightarrow>
   data_handler parse qc qm = Status400 (query_param qc) (toLowerCase (query_param qm))"
  by (auto simp: data_handler_def Let_def)

lemma data_handler_500:
  "query_param qc \<noteq> [] \<Longrightarrow> toLowerCase (query_param qm) \<noteq> [] \<Longrightarrow>
   data_handler (Inl (TypeError msg)) qc qm = Status500 msg"
  by (simp add: data_handler_def Let_def)

lemma data_handler_404:
  "query_param qc \<noteq> [] \<Longrightarrow> toLowerCase (query_param qm) \<noteq> [] \<Longrightarrow>
   filter (matches (query_param qc) (toLowerCase (query_param qm))) (records d) = [] \<Longrightarrow>
   data_handler (Inr d) qc qm =
     Status404 (not_found_message (query_param qc) (toLowerCase (query_param qm)))
       (query_param qc) (toLowerCase (query_param qm)) False"
  by (simp add: data_handler_def Let_def not_found_message_def)

lemma data_handler_200:
  "query_param qc \<noteq> [] \<Longrightarrow> toLowerCase (query_param qm) \<noteq> [] \<Longrightarrow>
   filter (matches (query_param qc) (toLowerCase (query_param qm))) (records d) = r0 # rs \<Longrightarrow>
   data_handler (Inr d) qc qm =
     Status200 (query_param qc) (ticker r0) (toLowerCase (query_param qm))
       (sort_key p_year (map to_point (r0 # rs))) (Suc (length rs)) True"
proof -
  have l: "(\<lambda>r. \<lparr>p_year = year r, p_value = val r\<rparr>) = to_point"
    by (simp add: fun_eq_iff to_point_def)
  assume "query_param qc \<noteq> []" "toLowerCase (query_param qm) \<noteq> []"
    "filter (matches (query_param qc) (toLowerCase (query_param qm))) (records d) = r0 # rs"
  then show ?thesis
    by (simp add: data_handler_def Let_def l del: sort_key_simps list.map length_greater_0_conv)
qed

lemma data_handler_cases:
  obtains
    (bad) "query_param qc = [] \<or> toLowerCase (query_param qm) = []"
  | (err) msg where "query_param qc \<noteq> []" "toLowerCase (query_param qm) \<noteq> []"
      "parse = Inl (TypeError msg)"
  | (none) d where "query_param qc \<noteq> []" "toLowerCase (query_param qm) \<noteq> []"
      "parse = Inr d"
      "filter (matches (query_param qc) (toLowerCase (query_param qm))) (records d) = []"
  | (some) d r0 rs where "query_param qc \<noteq> []" "toLowerCase (query_param qm) \<noteq> []"
      "parse = Inr d"
      "filter (matches (query_param qc) (toLowerCase (query_param qm))) (records d) = r0 # rs"
proof (cases "query_param qc = [] \<or> toLowerCase (query_param qm) = []")
  case True
  then show ?thesis by (rule bad)
next
  case False
  show ?thesis
  proof (cases parse)
    case (Inl e)
    then show ?thesis using False err by (cases e) auto
  next
    case (Inr d)
    then show ?thesis using False none some
      by (cases "filter (matches (query_param qc) (toLowerCase (query_param qm))) (records d)") auto
  qed
qed

section \<open>Properties of the chart renderer\<close>

lemma num_or_nonzero: "num_or a 1 \<noteq> 0"
  by (simp add: num_or_def)

lemma js_div_guarded: "js_div a (num_or b 1) = Some (a / num_or b 1)"
  by (simp add: js_div_def num_or_nonzero)

lemma xScale_Some:
  "xScale minYear maxYear y = Some (70 + (y - minYear) / num_or (maxYear - minYear) 1 * 700)"
  by (simp add: xScale_def js_div_guarded width_def margin_left_def margin_right_def)

lemma yScale_Some:
  "yScale minVal maxVal v = Some (380 - (v - minVal) / num_or (maxVal - minVal) 1 * 350)"
  by (simp add: yScale_def js_div_guarded height_def margin_top_def margin_bottom_def)

lemma place_Some:
  "place minYear maxYear minVal maxVal p = Some (position minYear maxYear minVal maxVal p)"
  by (simp add: place_def position_def xScale_Some yScale_Some)

lemma place_tick_Some: "place_tick minVal maxVal v = Some (tick minVal maxVal v)"
  by (simp add: place_tick_def tick_def yScale_Some)

lemma those_map_Some: "(\<And>x. f x = Some (g x)) \<Longrightarrow> those (map f xs) = Some (map g xs)"
  by (induction xs) simp_all

lemma Math_min_eq: "xs \<noteq> [] \<Longrightarrow> Math_min xs = Some (Min (set xs))"
  by (cases xs) (simp_all add: Min.set_eq_fold [symmetric])

lemma Math_max_eq: "xs \<noteq> [] \<Longrightarrow> Math_max xs = Some (Max (set xs))"
  by (cases xs) (simp_all add: Max.set_eq_fold [symmetric])

lemma LineChart_Some:
  assumes "points \<noteq> []"
  shows "LineChart points =
     Some \<lparr>pathD = map (\<lambda>(i, x, y). (if i = 0 then ''M'' else ''L'', x, y))
                    (zip [0..<length points]
                       (map (position (minYear_of points) (maxYear_of points)
                                      (minVal_of points) (maxVal_of points)) points)),
           valueTicks = map (tick (minVal_of points) (maxVal_of points))
                          (yTickVals (minVal_of points) (maxVal_of points)),
           dots = map (\<lambda>(x, y). (x, y, 3))
                    (map (position (minYear_of points) (maxYear_of points)
                                   (minVal_of points) (maxVal_of points)) points)\<rparr>"
proof -
  have a: "Math_min (map (\<lambda>p. real_of_int (p_year p)) points) = Some (minYear_of points)"
    using assms by (simp add: Math_min_eq minYear_of_def)
  have b: "Math_max (map (\<lambda>p. real_of_int (p_year p)) points) = Some (maxYear_of points)"
    using assms by (simp add: Math_max_eq maxYear_of_def)
  have c: "Math_min (map p_value points) = Some (minVal_of points)"
    using assms by (simp add: Math_min_eq minVal_of_def)
  have d: "Math_max (map p_value points) = Some (maxVal_of points)"
    using assms by (simp add: Math_max_eq maxVal_of_def)
  have e: "those (map (place (minYear_of points) (maxYear_of points)
                         (minVal_of points) (maxVal_of points)) points) =
           Some (map (position (minYear_of points) (maxYear_of points)
                         (minVal_of points) (maxVal_of points)) points)"
    by (rule those_map_Some) (rule place_Some)
  have f: "those (map (place_tick (minVal_of points) (maxVal_of points))
                    (yTickVals (minVal_of points) (maxVal_of points))) =
           Some (map (tick (minVal_of points) (maxVal_of points))
                    (yTickVals (minVal_of points) (maxVal_of points)))"
    by (rule those_map_Some) (rule place_tick_Some)
  show ?thesis
    by (simp add: LineChart_def Let_def a b c d e f)
qed

lemma yTickVals_eq:
  "yTickVals mn mx =
     [mn, mn + (mx - mn) / 5, mn + 2 * (mx - mn) / 5, mn + 3 * (mx - mn) / 5,
      mn + 4 * (mx - mn) / 5, mx]"
proof -
  have "[0..<yTicks + 1] = [0, 1, 2, 3, 4, 5]"
    by (simp add: yTicks_def upt_rec)
  then show ?thesis by (simp add: yTickVals_def yTicks_def diff_divide_distrib)
qed

lemma formatNumber_cases:
  "(1000000000 \<le> \<bar>n\<bar> \<longrightarrow> formatNumber n = Label (n / 1000000000) 1 ''B'') \<and>
   (1000000 \<le> \<bar>n\<bar> \<and> \<bar>n\<bar> < 1000000000 \<longrightarrow> formatNumber n = Label (n / 1000000) 1 ''M'') \<and>
   (1000 \<le> \<bar>n\<bar> \<and> \<bar>n\<bar> < 1000000 \<longrightarrow> formatNumber n = Label (n / 1000) 1 ''K'') \<and>
   (\<bar>n\<bar> < 1000 \<longrightarrow> formatNumber n = Label n 0 [])"
  by (simp add: formatNumber_def)

lemma all_equal_Min:
  assumes "xs \<noteq> []" and "\<forall>a \<in> set xs. \<forall>b \<in> set xs. a = b" and "x \<in> set xs"
  shows "Min (set xs) = (x::real)" and "Max (set xs) = x"
proof -
  have "Min (set xs) \<in> set xs" using assms(1) by (simp add: Min_in)
  with assms(2,3) show "Min (set xs) = x" by blast
  have "Max (set xs) \<in> set xs" using assms(1) by (simp add: Max_in)
  with assms(2,3) show "Max (set xs) = x" by blast
qed

lemma same_years_position:
  assumes "\<forall>p \<in> set points. \<forall>q \<in> set points. p_year p = p_year q" and "p \<in> set points"
  shows "fst (position (minYear_of points) (maxYear_of points) mn mx p) = 70"
proof -
  let ?ys = "map (\<lambda>p. real_of_int (p_year p)) points"
  have ne: "?ys \<noteq> []" using assms(2) by auto
  have eq: "\<forall>a \<in> set ?ys. \<forall>b \<in> set ?ys. a = b"
  proof (intro ballI)
    fix a b
    assume "a \<in> set ?ys" "b \<in> set ?ys"
    then obtain q r where qr: "q \<in> set points" "a = real_of_int (p_year q)"
      "r \<in> set points" "b = real_of_int (p_year r)"
      by auto
    from assms(1) qr(1,3) have "p_year q = p_year r" by blast
    with qr(2,4) show "a = b" by simp
  qed
  have m: "real_of_int (p_year p) \<in> set ?ys" using assms(2) by auto
  have "minYear_of points = real_of_int (p_year p)"
    unfolding minYear_of_def by (rule all_equal_Min(1) [OF ne eq m])
  then show ?thesis by (simp add: position_def)
qed

lemma same_values_position:
  assumes "\<forall>p \<in> set points. \<forall>q \<in> set points. p_value p = p_value q" and "p \<in> set points"
  shows "snd (position mn mx (minVal_of points) (maxVal_of points) p) = 380"
proof -
  let ?vs = "map p_value points"
  have ne: "?vs \<noteq> []" using assms(2) by auto
  have eq: "\<forall>a \<in> set ?vs. \<forall>b \<in> set ?vs. a = b"
  proof (intro ballI)
    fix a b
    assume "a \<in> set ?vs" "b \<in> set ?vs"
    then obtain q r where qr: "q \<in> set points" "a = p_value q" "r \<in> set points" "b = p_value r"
      by auto
    from assms(1) qr(1,3) have "p_value q = p_value r" by blast
    with qr(2,4) show "a = b" by simp
  qed
  have m: "p_value p \<in> set ?vs" using assms(2) by auto
  have "minVal_of points = p_value p"
    unfolding minVal_of_def by (rule all_equal_Min(1) [OF ne eq m])
  then show ?thesis by (simp add: position_def)
qed

lemma LineChart_single: "LineChart [p] = Some (one_point_chart p)"
proof -
  have "LineChart [p] = Some \<lparr>pathD = [(''M'', 70, 380)],
      valueTicks = map (tick (p_value p) (p_value p)) (yTickVals (p_value p) (p_value p)),
      dots = [(70, 380, 3)]\<rparr>"
    by (simp add: LineChart_Some minYear_of_def maxYear_of_def minVal_of_def maxVal_of_def
        position_def)
  moreover have "map (tick (p_value p) (p_value p)) (yTickVals (p_value p) (p_value p)) =
      replicate 6 (p_value p, 380, formatNumber (p_value p))"
  proof -
    have "replicate 6 (p_value p, 380::real, formatNumber (p_value p)) =
        [(p_value p, 380, formatNumber (p_value p)), (p_value p, 380, formatNumber (p_value p)),
         (p_value p, 380, formatNumber (p_value p)), (p_value p, 380, formatNumber (p_value p)),
         (p_value p, 380, formatNumber (p_value p)), (p_value p, 380, formatNumber (p_value p))]"
      by (simp only: numeral_eq_Suc pred_numeral_simps replicate_Suc replicate_0 BitM.simps
          One_nat_def)
    then show ?thesis by (simp add: yTickVals_eq tick_def)
  qed
  ultimately show ?thesis by (simp add: one_point_chart_def)
qed

section \<open>Properties of the retry wrappers\<close>

lemma fetchData_2:
  "c \<noteq> [] \<Longrightarrow> m \<noteq> [] \<Longrightarrow>
   fetchData c m out (Suc (Suc 0)) =
     Fetch 2 # (case out (Suc (Suc 0)) of Resolved d \<Rightarrow> [SetResult d]
                | Rejected e \<Rightarrow> [SetError (message_or_default e)])"
  by (subst fetchData.simps) (simp add: MAX_RETRIES_def numeral_2_eq_2 split: attempt.splits)

lemma fetchData_1:
  "c \<noteq> [] \<Longrightarrow> m \<noteq> [] \<Longrightarrow>
   fetchData c m out (Suc 0) =
     Fetch 1 # (case out (Suc 0) of Resolved d \<Rightarrow> [SetResult d]
                | Rejected e \<Rightarrow> Delay 4000 # fetchData c m out (Suc (Suc 0)))"
  by (subst fetchData.simps) (simp add: MAX_RETRIES_def RETRY_DELAY_def split: attempt.splits)

lemma fetchData_0:
  "c \<noteq> [] \<Longrightarrow> m \<noteq> [] \<Longrightarrow>
   fetchData c m out 0 =
     Fetch 0 # (case out 0 of Resolved d \<Rightarrow> [SetResult d]
                | Rejected e \<Rightarrow> Delay 2000 # fetchData c m out (Suc 0))"
  by (subst fetchData.simps) (simp add: MAX_RETRIES_def RETRY_DELAY_def split: attempt.splits)

lemma fetchOptions_2:
  "fetchOptions me ma out (Suc (Suc 0)) =
     (if \<not> me (Suc (Suc 0)) then []
      else Fetch 2 #
        (case out (Suc (Suc 0)) of
           Resolved d \<Rightarrow> if \<not> ma (Suc (Suc 0)) then [] else [SetResult d]
         | Rejected e \<Rightarrow> if \<not> ma (Suc (Suc 0)) then [] else [SetError (final_message e)]))"
  by (subst fetchOptions.simps)
     (simp add: MAX_RETRIES_def numeral_2_eq_2 split: attempt.splits)

lemma fetchOptions_1:
  "fetchOptions me ma out (Suc 0) =
     (if \<not> me (Suc 0) then []
      else Fetch 1 #
        (case out (Suc 0) of
           Resolved d \<Rightarrow> if \<not> ma (Suc 0) then [] else [SetResult d]
         | Rejected e \<Rightarrow>
             if \<not> ma (Suc 0) then []
             else Delay 4000 # fetchOptions me ma out (Suc (Suc 0))))"
  by (subst fetchOptions.simps)
     (simp add: MAX_RETRIES_def RETRY_DELAY_def split: attempt.splits)

lemma fetchOptions_0:
  "fetchOptions me ma out 0 =
     (if \<not> me 0 then []
      else Fetch 0 #
        (case out 0 of
           Resolved d \<Rightarrow> if \<not> ma 0 then [] else [SetResult d]
         | Rejected e \<Rightarrow>
             if \<not> ma 0 then [] else Delay 2000 # fetchOptions me ma out (Suc 0)))"
  by (subst fetchOptions.simps)
     (simp add: MAX_RETRIES_def RETRY_DELAY_def split: attempt.splits)

lemma upt_1_2: "[1..<2] = [1::nat]" and upt_1_3: "[1..<3] = [1, 2::nat]"
  by (simp_all add: upt_rec)

lemma out_numerals: "out (1::nat) = out (Suc 0)" "out (2::nat) = out (Suc (Suc 0))"
  by (simp_all add: numeral_2_eq_2)

lemma fetchData_attempts:
  assumes "c \<noteq> []" "m \<noteq> []"
  shows "length (filter is_Fetch (fetchData c m out 0)) \<le> MAX_RETRIES \<and>
         delays (fetchData c m out 0) =
           map (\<lambda>k. RETRY_DELAY * k) [1..<length (filter is_Fetch (fetchData c m out 0))]"
  using assms
  by (simp add: fetchData_0 fetchData_1 fetchData_2 MAX_RETRIES_def RETRY_DELAY_def
        upt_1_2 upt_1_3 split: attempt.splits)

lemma fetchOptions_attempts:
  "length (filter is_Fetch (fetchOptions me ma out 0)) \<le> MAX_RETRIES \<and>
   delays (fetchOptions me ma out 0) =
     take (length (delays (fetchOptions me ma out 0))) [RETRY_DELAY * 1, RETRY_DELAY * 2] \<and>
   length (delays (fetchOptions me ma out 0)) \<le> length (filter is_Fetch (fetchOptions me ma out 0))"
  by (simp add: fetchOptions_0 fetchOptions_1 fetchOptions_2 MAX_RETRIES_def RETRY_DELAY_def
        split: attempt.splits)

lemma carried_on_numerals:
  "carried_on me ma out 1 = (me 0 \<and> failed (out 0) \<and> ma 0)"
  "carried_on me ma out 2 =
     (me 0 \<and> failed (out 0) \<and> ma 0 \<and> me (Suc 0) \<and> failed (out (Suc 0)) \<and> ma (Suc 0))"
  "carried_on me ma out 3 =
     (me 0 \<and> failed (out 0) \<and> ma 0 \<and> me (Suc 0) \<and> failed (out (Suc 0)) \<and> ma (Suc 0) \<and>
      me (Suc (Suc 0)) \<and> failed (out (Suc (Suc 0))) \<and> ma (Suc (Suc 0)))"
  by (simp_all add: numeral_2_eq_2 numeral_3_eq_3)

lemma fetchOptions_skeleton:
  "attempts_and_waits (fetchOptions me ma out 0) =
     take (length (attempts_and_waits (fetchOptions me ma out 0))) schedule"
  by (simp add: fetchOptions_0 fetchOptions_1 fetchOptions_2 attempts_and_waits_def schedule_def
        RETRY_DELAY_def split: attempt.splits)

lemma fetchData_skeleton:
  "c \<noteq> [] \<Longrightarrow> m \<noteq> [] \<Longrightarrow>
   attempts_and_waits (fetchData c m out 0) =
     take (length (attempts_and_waits (fetchData c m out 0))) schedule"
  by (simp add: fetchData_0 fetchData_1 fetchData_2 attempts_and_waits_def schedule_def
        RETRY_DELAY_def split: attempt.splits)

lemma fetchOptions_events:
  "(Fetch 0 \<in> set (fetchOptions me ma out 0)) = (carried_on me ma out 0 \<and> me 0)"
  "(Delay (RETRY_DELAY * 1) \<in> set (fetchOptions me ma out 0)) = carried_on me ma out 1"
  "(Fetch 1 \<in> set (fetchOptions me ma out 0)) = (carried_on me ma out 1 \<and> me 1)"
  "(Delay (RETRY_DELAY * 2) \<in> set (fetchOptions me ma out 0)) = carried_on me ma out 2"
  "(Fetch 2 \<in> set (fetchOptions me ma out 0)) = (carried_on me ma out 2 \<and> me 2)"
  "(SetError s \<in> set (fetchOptions me ma out 0)) =
     (carried_on me ma out 3 \<and> (\<exists>e. out 2 = Rejected e \<and> s = final_message e))"
  by (auto simp: fetchOptions_0 fetchOptions_1 fetchOptions_2 carried_on_numerals out_numerals
        RETRY_DELAY_def split: attempt.splits if_splits)

lemma fetchData_events:
  assumes "c \<noteq> []" "m \<noteq> []"
  shows
  "Fetch 0 \<in> set (fetchData c m out 0)"
  "(Delay (RETRY_DELAY * 1) \<in> set (fetchData c m out 0)) = failed (out 0)"
  "(Fetch 1 \<in> set (fetchData c m out 0)) = failed (out 0)"
  "(Delay (RETRY_DELAY * 2) \<in> set (fetchData c m out 0)) = (failed (out 0) \<and> failed (out 1))"
  "(Fetch 2 \<in> set (fetchData c m out 0)) = (failed (out 0) \<and> failed (out 1))"
  "(SetError s \<in> set (fetchData c m out 0)) =
     (failed (out 0) \<and> failed (out 1) \<and> (\<exists>e. out 2 = Rejected e \<and> s = message_or_default e))"
  using assms
  by (auto simp: fetchData_0 fetchData_1 fetchData_2 out_numerals
        RETRY_DELAY_def split: attempt.splits if_splits)

section \<open>The scenario of the specification\<close>

text \<open>
  Claim C1, as amended. For the dataset \<open>acme_raw\<close>, \<open>/api/companies\<close> returns
  \<open>["Acme Co"]\<close>, \<open>/api/metrics\<close> returns \<open>["Revenue"]\<close> (the metric name as the dataset
  writes it), and \<open>/api/data?company=Acme Co&metric=REVENUE\<close> succeeds with ticker \<open>ACME\<close>,
  metric \<open>revenue\<close> and the points \<open>(2020, 100)\<close>, \<open>(2021, 150)\<close>.
\<close>

theorem scenario_acme:
  "api_companies acme_raw = ListOk 1 [''Acme Co''] \<and>
   api_metrics acme_raw = ListOk 1 [''Revenue''] \<and>
   api_data acme_raw (Some ''Acme Co'') (Some ''REVENUE'') =
     Status200 ''Acme Co'' ''ACME'' ''revenue''
       [\<lparr>p_year = 2020, p_value = 100\<rparr>, \<lparr>p_year = 2021, p_value = 150\<rparr>] 2 True"
  by code_simp

text \<open>
  Claim C1 as stated asks for the metric list \<open>["revenue"]\<close>; the list that
  \<open>/api/metrics\<close> returns for \<open>acme_raw\<close> is a different one.
\<close>

theorem scenario_acme_metrics_not_lowercase:
  "api_metrics acme_raw = ListOk 1 [''Revenue''] \<and> [''Revenue''] \<noteq> [''revenue'']"
  by code_simp

section \<open>One observation for each well-formed triple\<close>

text \<open>
  Claim C2. For every dataset, \<open>parseData\<close> returns without an error, and its records are,
  for each raw record with a non-empty ticker and company name in turn, and for each
  (metric, year, value) triple of that record in turn, the one observation of the triple if
  it has one. A triple has an observation exactly when its value is a number and its year
  key parses to an integer; any other triple contributes nothing.
\<close>

theorem parseData_observations:
  "(\<exists>d. parseData rawData = Inr d \<and>
        records d = concat (map company_observations (filter valid_company rawData))) \<and>
   (\<forall>cn t m y v. (observation_of cn t (m, y, v) \<noteq> None) =
                  (typeof v = ''number'' \<and> parseInt y \<noteq> None))"
proof
  show "\<exists>d. parseData rawData = Inr d \<and>
        records d = concat (map company_observations (filter valid_company rawData))"
    by (simp add: parseData_result)
  show "\<forall>cn t m y v. (observation_of cn t (m, y, v) \<noteq> None) =
                  (typeof v = ''number'' \<and> parseInt y \<noteq> None)"
    using observation_of_Some_iff by blast
qed

text \<open>
  On \<open>messy_raw\<close> the record without ticker, the metric that is no mapping, the value that
  is no number and the year key without digits are all passed over; one observation is left.
\<close>

theorem parseData_observations_witness:
  "\<exists>d. parseData messy_raw = Inr d \<and>
       records d =
         [\<lparr>company = ''Messy'', ticker = ''MSY'', field = ''net income'', year = 2021, val = 9\<rparr>]"
proof -
  have e: "concat (map company_observations (filter valid_company messy_raw)) =
      [\<lparr>company = ''Messy'', ticker = ''MSY'', field = ''net income'', year = 2021, val = 9\<rparr>]"
    by code_simp
  from parseData_observations [of messy_raw]
  have "\<exists>d. parseData messy_raw = Inr d \<and>
        records d = concat (map company_observations (filter valid_company messy_raw))"
    by (rule conjunct1)
  with e show ?thesis by simp
qed

section \<open>The company list and the metric list\<close>

text \<open>
  Claim C3, as amended. For every dataset, the company list and the metric list that
  \<open>parseData\<close> returns are sorted ascending in the default string order and have no
  duplicates. The company list holds the names of all raw records with a non-empty ticker and
  company name, and the metric list holds, as the dataset writes them, the metric names of
  those records whose year mapping is a non-null object, whether or not any observation
  comes from them. Every observation has its company in the company list and its metric,
  up to lower-casing, in the metric list.
\<close>

theorem parseData_lists:
  "\<exists>d. parseData rawData = Inr d \<and>
       sorted (companies d) \<and> distinct (companies d) \<and>
       sorted (metrics d) \<and> distinct (metrics d) \<and>
       set (companies d) = set (company_names rawData) \<and>
       set (metrics d) = set (metric_names rawData) \<and>
       company ` set (records d) \<subseteq> set (companies d) \<and>
       field ` set (records d) \<subseteq> toLowerCase ` set (metrics d)"
proof -
  let ?d = "\<lparr>records = concat (map company_observations (filter valid_company rawData)),
             companies = sort (fold set_add (company_names rawData) []),
             metrics = sort (fold set_add (metric_names rawData) [])\<rparr>"
  have p: "parseData rawData = Inr ?d" by (rule parseData_result)
  have c: "set (companies ?d) = set (company_names rawData)"
    by (simp add: set_fold_set_add)
  have m: "set (metrics ?d) = set (metric_names rawData)"
    by (simp add: set_fold_set_add)
  have sc: "sorted (companies ?d) \<and> distinct (companies ?d)"
    by (simp add: distinct_fold_set_add)
  have sm: "sorted (metrics ?d) \<and> distinct (metrics ?d)"
    by (simp add: distinct_fold_set_add)
  have rc: "company ` set (records ?d) \<subseteq> set (companies ?d)"
  proof
    fix x assume "x \<in> company ` set (records ?d)"
    then obtain ob r where "r \<in> set rawData" "valid_company r"
      "ob \<in> set (company_observations r)" "x = company ob"
      by auto
    then have "x = str_or_empty (Company_name r)" "r \<in> set (filter valid_company rawData)"
      using company_observations_fields by auto
    then have "x \<in> set (company_names rawData)"
      by (simp add: company_names_def)
    with c show "x \<in> set (companies ?d)" by simp
  qed
  have rm: "field ` set (records ?d) \<subseteq> toLowerCase ` set (metrics ?d)"
  proof
    fix x assume "x \<in> field ` set (records ?d)"
    then obtain ob r where r: "r \<in> set rawData" "valid_company r"
      "ob \<in> set (company_observations r)" "x = field ob"
      by auto
    then have "x \<in> toLowerCase ` set (mapped_metrics (financials_of r))"
      using company_observations_fields by auto
    moreover have "set (mapped_metrics (financials_of r)) \<subseteq> set (metric_names rawData)"
      using r(1,2) by (auto simp: metric_names_def)
    ultimately have "x \<in> toLowerCase ` set (metric_names rawData)" by blast
    with m show "x \<in> toLowerCase ` set (metrics ?d)" by simp
  qed
  from p c m sc sm rc rm show ?thesis by blast
qed

text \<open>On \<open>messy_raw\<close> the lists are \<open>["Messy"]\<close> and \<open>["Net Income"]\<close>.\<close>

theorem parseData_lists_witness:
  "\<exists>d. parseData messy_raw = Inr d \<and> set (companies d) = {''Messy''} \<and>
       set (metrics d) = {''Net Income''}"
proof -
  have c: "set (company_names messy_raw) = {''Messy''}" by code_simp
  have m: "set (metric_names messy_raw) = {''Net Income''}" by code_simp
  from parseData_lists [of messy_raw] c m show ?thesis by auto
qed

text \<open>
  Claim C3 as stated has both lists hold only names that occur in some observation. For
  \<open>bare_raw\<close> the lists are \<open>["Bare Co"]\<close> and \<open>["Revenue"]\<close> while there is no observation.
\<close>

theorem parseData_lists_not_from_observations:
  "\<not> set (companies (projr (parseData bare_raw)))
        \<subseteq> company ` set (records (projr (parseData bare_raw))) \<and>
   \<not> set (metrics (projr (parseData bare_raw)))
        \<subseteq> field ` set (records (projr (parseData bare_raw)))"
proof -
  have "parseData bare_raw = Inr \<lparr>records = [], companies = [''Bare Co''], metrics = [''Revenue'']\<rparr>"
    by code_simp
  then show ?thesis by simp
qed

section \<open>The query of \<open>/api/data\<close>\<close>

text \<open>
  Claim C4. For every outcome of \<open>parseData\<close> (so for every list of observations) and all
  query strings, a query whose company and metric differ from another query's only in the
  casing of letters has the same status (200, 400, 404 or 500) and, on success, the same
  ticker and the same points.
\<close>

theorem data_case_insensitive:
  assumes c: "toLowerCase c' = toLowerCase c" and m: "toLowerCase m' = toLowerCase m"
  shows "status (data_handler parse (Some c') (Some m')) =
           status (data_handler parse (Some c) (Some m)) \<and>
         ticker_and_points (data_handler parse (Some c') (Some m')) =
           ticker_and_points (data_handler parse (Some c) (Some m))"
proof -
  have qm: "toLowerCase (query_param (Some m')) = toLowerCase (query_param (Some m))"
    using m by (simp add: query_param_def str_or_empty_def trim_toLowerCase [symmetric])
  have qc: "toLowerCase (query_param (Some c')) = toLowerCase (query_param (Some c))"
    using c by (simp add: query_param_def str_or_empty_def trim_toLowerCase [symmetric])
  have e: "(query_param (Some c') = []) = (query_param (Some c) = [])"
    using toLowerCase_Nil_iff [of "query_param (Some c')"]
      toLowerCase_Nil_iff [of "query_param (Some c)"] qc
    by simp
  have f: "matches (query_param (Some c')) = matches (query_param (Some c))"
    using qc by (auto simp: matches_def fun_eq_iff)
  show ?thesis
  proof (cases rule: data_handler_cases [where qc = "Some c" and qm = "Some m" and parse = parse])
    case bad
    then have "query_param (Some c') = [] \<or> toLowerCase (query_param (Some m')) = []"
      using e qm by simp
    with bad show ?thesis by (simp add: data_handler_400)
  next
    case (err msg)
    then show ?thesis using e qm by (simp add: data_handler_500)
  next
    case (none d)
    then show ?thesis using e qm f by (simp add: data_handler_404)
  next
    case (some d r0 rs)
    then show ?thesis using e qm f by (simp add: data_handler_200 del: sort_key_simps)
  qed
qed

text \<open>The query \<open>ACME CO\<close>, \<open>Revenue\<close> on \<open>acme_raw\<close> succeeds as \<open>Acme Co\<close>, \<open>revenue\<close> does.\<close>

theorem data_case_insensitive_witness:
  "toLowerCase ''ACME CO'' = toLowerCase ''Acme Co'' \<and>
   toLowerCase ''Revenue'' = toLowerCase ''revenue'' \<and>
   status (api_data acme_raw (Some ''ACME CO'') (Some ''Revenue'')) = 200 \<and>
   ticker_and_points (api_data acme_raw (Some ''ACME CO'') (Some ''Revenue'')) =
     Some (''ACME'', [\<lparr>p_year = 2020, p_value = 100\<rparr>, \<lparr>p_year = 2021, p_value = 150\<rparr>])"
proof -
  have c: "toLowerCase ''ACME CO'' = toLowerCase ''Acme Co''" by code_simp
  have m: "toLowerCase ''Revenue'' = toLowerCase ''revenue''" by code_simp
  have s: "status (api_data acme_raw (Some ''Acme Co'') (Some ''revenue'')) = 200"
    by code_simp
  have t: "ticker_and_points (api_data acme_raw (Some ''Acme Co'') (Some ''revenue'')) =
     Some (''ACME'', [\<lparr>p_year = 2020, p_value = 100\<rparr>, \<lparr>p_year = 2021, p_value = 150\<rparr>])"
    by code_simp
  from data_case_insensitive [OF c m, of "parseData acme_raw"] s t c m
  show ?thesis by (simp add: api_data_def)
qed

text \<open>
  Claim C5. Whatever the order of the observations, the points of every successful response
  are sorted ascending by year; and a query with non-empty company and metric that matches at
  least one observation does succeed, its points being those of the matching observations.
\<close>

theorem data_points_sorted:
  "(\<forall>n t m ps k f. data_handler parse qc qm = Status200 n t m ps k f \<longrightarrow> sorted (map p_year ps)) \<and>
   (\<forall>d. parse = Inr d \<and> query_param qc \<noteq> [] \<and> toLowerCase (query_param qm) \<noteq> [] \<and>
        filter (matches (query_param qc) (toLowerCase (query_param qm))) (records d) \<noteq> [] \<longrightarrow>
        (\<exists>t ps. data_handler parse qc qm =
                  Status200 (query_param qc) t (toLowerCase (query_param qm)) ps (length ps) True \<and>
                set ps = to_point ` {r \<in> set (records d).
                           matches (query_param qc) (toLowerCase (query_param qm)) r}))"
proof (cases rule: data_handler_cases [where qc = qc and qm = qm and parse = parse])
  case bad
  then show ?thesis by (auto simp: data_handler_400)
next
  case (err msg)
  then show ?thesis by (simp add: data_handler_500)
next
  case (none d)
  then show ?thesis by (simp add: data_handler_404)
next
  case (some d r0 rs)
  let ?ps = "sort_key p_year (map to_point (r0 # rs))"
  have h: "data_handler parse qc qm =
      Status200 (query_param qc) (ticker r0) (toLowerCase (query_param qm)) ?ps (length ?ps) True"
    using data_handler_200 [OF some(1,2,4)] some(3) by simp
  have s: "sorted (map p_year ?ps)" by (rule sorted_sort_key)
  have e: "set ?ps = to_point ` {r \<in> set (records d).
                      matches (query_param qc) (toLowerCase (query_param qm)) r}"
    by (simp only: set_sort set_map some(4) [symmetric] set_filter)
  from h s e some(3) show ?thesis by auto
qed

text \<open>On \<open>shuffled\<close> the years 2021, 2019, 2020 come back as 2019, 2020, 2021.\<close>

theorem data_points_sorted_witness:
  "data_handler (Inr shuffled) (Some ''acme co'') (Some ''Revenue'') =
     Status200 ''acme co'' ''ACME'' ''revenue''
       [\<lparr>p_year = 2019, p_value = 90\<rparr>, \<lparr>p_year = 2020, p_value = 100\<rparr>,
        \<lparr>p_year = 2021, p_value = 150\<rparr>] 3 True \<and>
   sorted (map p_year [\<lparr>p_year = 2019, p_value = 90\<rparr>, \<lparr>p_year = 2020, p_value = 100\<rparr>,
        \<lparr>p_year = 2021, p_value = (150::real)\<rparr>])"
proof -
  have h: "data_handler (Inr shuffled) (Some ''acme co'') (Some ''Revenue'') =
     Status200 ''acme co'' ''ACME'' ''revenue''
       [\<lparr>p_year = 2019, p_value = 90\<rparr>, \<lparr>p_year = 2020, p_value = 100\<rparr>,
        \<lparr>p_year = 2021, p_value = 150\<rparr>] 3 True"
    by code_simp
  from data_points_sorted [of "Inr shuffled" "Some ''acme co''" "Some ''Revenue''"] h
  show ?thesis by blast
qed

text \<open>
  Claim C6, as amended. For every list of observations, a query whose company and metric are
  non-empty after trimming and that matches no observation is answered with status 404:
  \<open>found\<close> is false, and the body carries the trimmed company and the trimmed, lower-cased
  metric, also inside its error text.
\<close>

theorem data_not_found:
  assumes "trim c \<noteq> []" and "trim m \<noteq> []"
    and "filter (matches (trim c) (toLowerCase (trim m))) (records d) = []"
  shows "data_handler (Inr d) (Some c) (Some m) =
           Status404 (not_found_message (trim c) (toLowerCase (trim m)))
             (trim c) (toLowerCase (trim m)) False"
  using assms data_handler_404 [of "Some c" "Some m" d]
  by (simp add: query_param_def str_or_empty_def toLowerCase_Nil_iff)

text \<open>The company \<open>Unknown\<close> is not in \<open>acme_raw\<close>.\<close>

theorem data_not_found_witness:
  "trim ''Unknown'' \<noteq> [] \<and> trim ''revenue'' \<noteq> [] \<and>
   api_data acme_raw (Some ''Unknown'') (Some ''revenue'') =
     Status404 (not_found_message ''Unknown'' ''revenue'') ''Unknown'' ''revenue'' False"
proof -
  let ?d = "\<lparr>records =
        [\<lparr>company = ''Acme Co'', ticker = ''ACME'', field = ''revenue'', year = 2020, val = 100\<rparr>,
         \<lparr>company = ''Acme Co'', ticker = ''ACME'', field = ''revenue'', year = 2021, val = 150\<rparr>],
        companies = [''Acme Co''], metrics = [''Revenue'']\<rparr>"
  have p: "parseData acme_raw = Inr ?d" by code_simp
  have c: "trim ''Unknown'' = ''Unknown''" by code_simp
  have m: "trim ''revenue'' = ''revenue''" by code_simp
  have l: "toLowerCase ''revenue'' = ''revenue''" by code_simp
  have f: "filter (matches ''Unknown'' ''revenue'') (records ?d) = []" by code_simp
  from data_not_found [of "''Unknown''" "''revenue''" ?d] c m l f p
  show ?thesis by (simp add: api_data_def)
qed

text \<open>
  Claim C6 as stated covers every non-empty query string. A company of one blank is not
  empty and matches no observation of \<open>acme_raw\<close>, yet the answer has status 400, not 404.
\<close>

theorem blank_company_is_bad_request:
  "'' '' \<noteq> [] \<and> ''revenue'' \<noteq> [] \<and>
   filter (matches '' '' ''revenue'') (records (projr (parseData acme_raw))) = [] \<and>
   api_data acme_raw (Some '' '') (Some ''revenue'') = Status400 [] ''revenue''"
  by code_simp

text \<open>
  Claim C10. In every successful response of \<open>/api/data\<close>, the company name is the query's
  company after trimming, in the caller's casing, and the metric is the query's metric after
  trimming and lower-casing; neither is read from the dataset.
\<close>

theorem data_echoes_query:
  assumes "data_handler parse (Some c) (Some m) = Status200 n t m' ps k f"
  shows "n = trim c \<and> m' = toLowerCase (trim m)"
proof (cases rule: data_handler_cases [where qc = "Some c" and qm = "Some m" and parse = parse])
  case bad
  then show ?thesis using assms by (simp add: data_handler_400)
next
  case (err msg)
  then show ?thesis using assms by (simp add: data_handler_500)
next
  case (none d)
  then show ?thesis using assms by (simp add: data_handler_404)
next
  case (some d r0 rs)
  then show ?thesis using assms
    by (simp add: data_handler_200 query_param_def str_or_empty_def del: sort_key_simps)
qed

text \<open>
  The query \<open>acme CO\<close> on \<open>acme_raw\<close> is answered with the name \<open>acme CO\<close>, not with
  the dataset's \<open>Acme Co\<close>.
\<close>

theorem data_echoes_query_witness:
  "api_data acme_raw (Some '' acme CO '') (Some ''REVENUE '') =
     Status200 ''acme CO'' ''ACME'' ''revenue''
       [\<lparr>p_year = 2020, p_value = 100\<rparr>, \<lparr>p_year = 2021, p_value = 150\<rparr>] 2 True \<and>
   ''acme CO'' = trim '' acme CO '' \<and> ''revenue'' = toLowerCase (trim ''REVENUE '')"
proof -
  have h: "data_handler (parseData acme_raw) (Some '' acme CO '') (Some ''REVENUE '') =
     Status200 ''acme CO'' ''ACME'' ''revenue''
       [\<lparr>p_year = 2020, p_value = 100\<rparr>, \<lparr>p_year = 2021, p_value = 150\<rparr>] 2 True"
    by code_simp
  from data_echoes_query [OF h] h show ?thesis by (simp add: api_data_def)
qed

section \<open>What the chart draws\<close>

text \<open>
  Claim C8, as amended. For every non-empty list of points the chart has exactly six value
  ticks, at the values \<open>min + i * (max - min) / 5\<close> for \<open>i = 0, ..., 5\<close>: evenly spaced from
  the least to the greatest value, both included. Each tick is labelled by \<open>formatNumber\<close>
  of its value: one fraction digit and the suffix \<open>B\<close>, \<open>M\<close> or \<open>K\<close> from \<open>10^9\<close>, \<open>10^6\<close>
  or \<open>10^3\<close> on in absolute value, and no fraction digit and no suffix below.
\<close>

theorem value_ticks:
  assumes "points \<noteq> []"
  shows "\<exists>ch. LineChart points = Some ch \<and>
           length (valueTicks ch) = 6 \<and>
           map tick_value (valueTicks ch) =
             map (\<lambda>i. minVal_of points + real i * ((maxVal_of points - minVal_of points) / 5))
               [0..<6] \<and>
           (\<forall>t \<in> set (valueTicks ch).
              tick_label t = formatNumber (tick_value t) \<and>
              (1000000000 \<le> \<bar>tick_value t\<bar> \<longrightarrow>
                 tick_label t = Label (tick_value t / 1000000000) 1 ''B'') \<and>
              (1000000 \<le> \<bar>tick_value t\<bar> \<and> \<bar>tick_value t\<bar> < 1000000000 \<longrightarrow>
                 tick_label t = Label (tick_value t / 1000000) 1 ''M'') \<and>
              (1000 \<le> \<bar>tick_value t\<bar> \<and> \<bar>tick_value t\<bar> < 1000000 \<longrightarrow>
                 tick_label t = Label (tick_value t / 1000) 1 ''K'') \<and>
              (\<bar>tick_value t\<bar> < 1000 \<longrightarrow> tick_label t = Label (tick_value t) 0 []))"
proof -
  let ?mn = "minVal_of points" and ?mx = "maxVal_of points"
  let ?ticks = "map (tick ?mn ?mx) (yTickVals ?mn ?mx)"
  from LineChart_Some [OF assms] obtain ch where
    ch: "LineChart points = Some ch" "valueTicks ch = ?ticks"
    by simp
  have u: "[0..<6] = [0, 1, 2, 3, 4, 5::nat]" by (simp add: upt_rec)
  have l: "length ?ticks = 6" by (simp add: yTickVals_eq)
  have v: "map tick_value ?ticks = map (\<lambda>i. ?mn + real i * ((?mx - ?mn) / 5)) [0..<6]"
    unfolding u by (simp add: yTickVals_eq tick_value_def tick_def comp_def diff_divide_distrib)
  have f: "\<forall>t \<in> set ?ticks.
      tick_label t = formatNumber (tick_value t) \<and>
      (1000000000 \<le> \<bar>tick_value t\<bar> \<longrightarrow>
         tick_label t = Label (tick_value t / 1000000000) 1 ''B'') \<and>
      (1000000 \<le> \<bar>tick_value t\<bar> \<and> \<bar>tick_value t\<bar> < 1000000000 \<longrightarrow>
         tick_label t = Label (tick_value t / 1000000) 1 ''M'') \<and>
      (1000 \<le> \<bar>tick_value t\<bar> \<and> \<bar>tick_value t\<bar> < 1000000 \<longrightarrow>
         tick_label t = Label (tick_value t / 1000) 1 ''K'') \<and>
      (\<bar>tick_value t\<bar> < 1000 \<longrightarrow> tick_label t = Label (tick_value t) 0 [])"
  proof
    fix t
    assume "t \<in> set ?ticks"
    then have eq: "tick_label t = formatNumber (tick_value t)"
      by (auto simp: tick_label_def tick_value_def tick_def)
    show
      "tick_label t = formatNumber (tick_value t) \<and>
      (1000000000 \<le> \<bar>tick_value t\<bar> \<longrightarrow>
         tick_label t = Label (tick_value t / 1000000000) 1 ''B'') \<and>
      (1000000 \<le> \<bar>tick_value t\<bar> \<and> \<bar>tick_value t\<bar> < 1000000000 \<longrightarrow>
         tick_label t = Label (tick_value t / 1000000) 1 ''M'') \<and>
      (1000 \<le> \<bar>tick_value t\<bar> \<and> \<bar>tick_value t\<bar> < 1000000 \<longrightarrow>
         tick_label t = Label (tick_value t / 1000) 1 ''K'') \<and>
      (\<bar>tick_value t\<bar> < 1000 \<longrightarrow> tick_label t = Label (tick_value t) 0 [])"
      unfolding eq by (rule conjI [OF refl formatNumber_cases])
  qed
  from l v f have "length (valueTicks ch) = 6 \<and>
      map tick_value (valueTicks ch) = map (\<lambda>i. ?mn + real i * ((?mx - ?mn) / 5)) [0..<6] \<and>
      (\<forall>t \<in> set (valueTicks ch).
      tick_label t = formatNumber (tick_value t) \<and>
      (1000000000 \<le> \<bar>tick_value t\<bar> \<longrightarrow>
         tick_label t = Label (tick_value t / 1000000000) 1 ''B'') \<and>
      (1000000 \<le> \<bar>tick_value t\<bar> \<and> \<bar>tick_value t\<bar> < 1000000000 \<longrightarrow>
         tick_label t = Label (tick_value t / 1000000) 1 ''M'') \<and>
      (1000 \<le> \<bar>tick_value t\<bar> \<and> \<bar>tick_value t\<bar> < 1000000 \<longrightarrow>
         tick_label t = Label (tick_value t / 1000) 1 ''K'') \<and>
      (\<bar>tick_value t\<bar> < 1000 \<longrightarrow> tick_label t = Label (tick_value t) 0 []))"
    unfolding ch(2) by (intro conjI)
  with ch(1) have body: "LineChart points = Some ch \<and>
      length (valueTicks ch) = 6 \<and>
      map tick_value (valueTicks ch) = map (\<lambda>i. ?mn + real i * ((?mx - ?mn) / 5)) [0..<6] \<and>
      (\<forall>t \<in> set (valueTicks ch).
      tick_label t = formatNumber (tick_value t) \<and>
      (1000000000 \<le> \<bar>tick_value t\<bar> \<longrightarrow>
         tick_label t = Label (tick_value t / 1000000000) 1 ''B'') \<and>
      (1000000 \<le> \<bar>tick_value t\<bar> \<and> \<bar>tick_value t\<bar> < 1000000000 \<longrightarrow>
         tick_label t = Label (tick_value t / 1000000) 1 ''M'') \<and>
      (1000 \<le> \<bar>tick_value t\<bar> \<and> \<bar>tick_value t\<bar> < 1000000 \<longrightarrow>
         tick_label t = Label (tick_value t / 1000) 1 ''K'') \<and>
      (\<bar>tick_value t\<bar> < 1000 \<longrightarrow> tick_label t = Label (tick_value t) 0 []))"
    by (rule conjI)
  show ?thesis by (rule exI) (rule body)
qed

text \<open>The ticks of \<open>two_points\<close>, whose values are 100 and 150000.\<close>

theorem value_ticks_witness:
  "two_points \<noteq> [] \<and>
   (\<exists>ch. LineChart two_points = Some ch \<and> length (valueTicks ch) = 6 \<and>
      map tick_value (valueTicks ch) = [100, 30080, 60060, 90040, 120020, 150000])"
proof -
  have n: "two_points \<noteq> []" by (simp add: two_points_def)
  have mn: "minVal_of two_points = 100" by (simp add: minVal_of_def two_points_def)
  have mx: "maxVal_of two_points = 150000" by (simp add: maxVal_of_def two_points_def)
  have u: "[0..<6] = [0, 1, 2, 3, 4, 5::nat]" by (simp add: upt_rec)
  have v: "map (\<lambda>i. minVal_of two_points + real i * ((maxVal_of two_points - minVal_of two_points) / 5))
             [0..<6] = [100, 30080, 60060, 90040, 120020, 150000]"
    unfolding u mn mx by simp
  from value_ticks [OF n] v n show ?thesis by auto
qed

text \<open>Claim C8 as stated has five value ticks; \<open>two_points\<close> gets six.\<close>

theorem value_ticks_are_six:
  "map_option (\<lambda>ch. length (valueTicks ch)) (LineChart two_points) = Some 6 \<and> (6::nat) \<noteq> 5"
  by code_simp

text \<open>
  Claim C9. Neither scale function ever divides by zero, whatever the range it is given; a
  non-empty list of points always yields a chart with one polyline command and one marker
  for each point. When all years are equal every marker is at the left margin, and when all
  values are equal every marker is on the base line. For a single point the polyline is
  the single command \<open>M 70 380\<close> and there is one marker, at that position.
\<close>

theorem scales_guarded:
  "(\<forall>minYear maxYear y. xScale minYear maxYear y \<noteq> None) \<and>
   (\<forall>minVal maxVal v. yScale minVal maxVal v \<noteq> None) \<and>
   (points \<noteq> [] \<longrightarrow>
      (\<exists>ch. LineChart points = Some ch \<and>
         length (pathD ch) = length points \<and> length (dots ch) = length points \<and>
         ((\<forall>p \<in> set points. \<forall>q \<in> set points. p_year p = p_year q) \<longrightarrow>
            (\<forall>d \<in> set (dots ch). fst d = 70)) \<and>
         ((\<forall>p \<in> set points. \<forall>q \<in> set points. p_value p = p_value q) \<longrightarrow>
            (\<forall>d \<in> set (dots ch). fst (snd d) = 380)))) \<and>
   (\<forall>p. LineChart [p] = Some (one_point_chart p))"
proof (intro conjI allI impI)
  fix minYear maxYear y
  show "xScale minYear maxYear y \<noteq> None" by (simp add: xScale_Some)
next
  fix minVal maxVal v
  show "yScale minVal maxVal v \<noteq> None" by (simp add: yScale_Some)
next
  fix p
  show "LineChart [p] = Some (one_point_chart p)" by (rule LineChart_single)
next
  assume ne: "points \<noteq> []"
  let ?pos = "position (minYear_of points) (maxYear_of points) (minVal_of points) (maxVal_of points)"
  from LineChart_Some [OF ne] obtain ch where
    ch: "LineChart points = Some ch"
        "pathD ch = map (\<lambda>(i, x, y). (if i = 0 then ''M'' else ''L'', x, y))
                      (zip [0..<length points] (map ?pos points))"
        "dots ch = map (\<lambda>(x, y). (x, y, 3)) (map ?pos points)"
    by simp
  have l1: "length (pathD ch) = length points" using ch(2) by simp
  have l2: "length (dots ch) = length points" using ch(3) by simp
  have x: "(\<forall>p \<in> set points. \<forall>q \<in> set points. p_year p = p_year q) \<longrightarrow>
            (\<forall>d \<in> set (dots ch). fst d = 70)"
  proof (intro impI ballI)
    fix d
    assume eq: "\<forall>p \<in> set points. \<forall>q \<in> set points. p_year p = p_year q"
      and "d \<in> set (dots ch)"
    then obtain p where p: "p \<in> set points" "d = (fst (?pos p), snd (?pos p), 3)"
      unfolding ch(3) by (auto simp: case_prod_unfold)
    from same_years_position [OF eq p(1)] p(2) show "fst d = 70" by simp
  qed
  have y: "(\<forall>p \<in> set points. \<forall>q \<in> set points. p_value p = p_value q) \<longrightarrow>
            (\<forall>d \<in> set (dots ch). fst (snd d) = 380)"
  proof (intro impI ballI)
    fix d
    assume eq: "\<forall>p \<in> set points. \<forall>q \<in> set points. p_value p = p_value q"
      and "d \<in> set (dots ch)"
    then obtain p where p: "p \<in> set points" "d = (fst (?pos p), snd (?pos p), 3)"
      unfolding ch(3) by (auto simp: case_prod_unfold)
    from same_values_position [OF eq p(1)] p(2) show "fst (snd d) = 380" by simp
  qed
  from ch(1) l1 l2 x y
  show "\<exists>ch. LineChart points = Some ch \<and>
         length (pathD ch) = length points \<and> length (dots ch) = length points \<and>
         ((\<forall>p \<in> set points. \<forall>q \<in> set points. p_year p = p_year q) \<longrightarrow>
            (\<forall>d \<in> set (dots ch). fst d = 70)) \<and>
         ((\<forall>p \<in> set points. \<forall>q \<in> set points. p_value p = p_value q) \<longrightarrow>
            (\<forall>d \<in> set (dots ch). fst (snd d) = 380))"
    by blast
qed

text \<open>
  Two points of the same year have both markers at the left margin, and the chart of the
  single point \<open>(2020, 100)\<close> is one command and one marker.
\<close>

theorem scales_guarded_witness:
  "same_year_points \<noteq> [] \<and>
   (\<exists>ch. LineChart same_year_points = Some ch \<and> map fst (dots ch) = [70, 70]) \<and>
   LineChart [\<lparr>p_year = 2020, p_value = 100\<rparr>] =
     Some \<lparr>pathD = [(''M'', 70, 380)],
           valueTicks = replicate 6 (100, 380, Label 100 0 []),
           dots = [(70, 380, 3)]\<rparr>"
proof -
  have ne: "same_year_points \<noteq> []" by (simp add: same_year_points_def)
  have eq: "\<forall>p \<in> set same_year_points. \<forall>q \<in> set same_year_points. p_year p = p_year q"
    by (simp add: same_year_points_def)
  note g = scales_guarded [of same_year_points, THEN conjunct2, THEN conjunct2, THEN conjunct1,
      THEN mp, OF ne]
  then obtain ch where
    ch: "LineChart same_year_points = Some ch" "length (dots ch) = length same_year_points"
    and imp: "(\<forall>p \<in> set same_year_points. \<forall>q \<in> set same_year_points. p_year p = p_year q) \<longrightarrow>
            (\<forall>d \<in> set (dots ch). fst d = 70)"
    by (elim exE conjE)
  from imp eq have all: "\<forall>d \<in> set (dots ch). fst d = 70" by (rule mp)
  from ch(2) have "length (dots ch) = Suc (Suc 0)" by (simp add: same_year_points_def)
  then obtain a b where ab: "dots ch = [a, b]"
    by (auto simp: length_Suc_conv)
  with all have "map fst (dots ch) = [70, 70]" by simp
  with ch(1) have two: "\<exists>ch. LineChart same_year_points = Some ch \<and> map fst (dots ch) = [70, 70]"
    by (intro exI [of _ ch] conjI)
  have "formatNumber 100 = Label 100 0 []" by (simp add: formatNumber_def)
  with scales_guarded [of "[\<lparr>p_year = 2020, p_value = 100\<rparr>]", THEN conjunct2, THEN conjunct2,
      THEN conjunct2, THEN spec, of "\<lparr>p_year = 2020, p_value = 100\<rparr>"]
  have one: "LineChart [\<lparr>p_year = 2020, p_value = 100\<rparr>] =
     Some \<lparr>pathD = [(''M'', 70, 380)],
           valueTicks = replicate 6 (100, 380, Label 100 0 []),
           dots = [(70, 380, 3)]\<rparr>"
    by (simp add: one_point_chart_def)
  from ne two one show ?thesis by (intro conjI)
qed

section \<open>The retry policy of the fetch client\<close>

text \<open>
  Claim C7, as amended. Both retry wrappers, \<open>fetchData\<close> and \<open>fetchOptions\<close>, make at most
  three attempts for one logical request, and their attempts and waits, in order, are an
  initial part of: attempt, wait of \<open>RETRY_DELAY * 1\<close>, attempt, wait of \<open>RETRY_DELAY * 2\<close>,
  attempt; so each attempt after the first comes right after the wait of \<open>RETRY_DELAY\<close> times
  the number of the failed attempt before it.

  \<open>fetchData\<close> waits and retries exactly when the first, respectively the first and the
  second attempt have failed, and it shows an error exactly when all three attempts have
  failed: the message of the third error as it is, or a default text when that message is
  missing or empty.

  \<open>fetchOptions\<close> waits and retries exactly as long as every attempt so far was started
  and ended with the component mounted and failed; once the component is unmounted it does
  nothing more. It shows an error exactly when all three attempts have failed with the
  component mounted throughout: the message of the third error followed by
  \<open>Please try refreshing the page.\<close> when that is an \<open>Error\<close>, and \<open>Failed to load data\<close>
  otherwise.
\<close>

theorem retry_policy:
  assumes "selectedCompany \<noteq> []" and "selectedMetric \<noteq> []"
  shows
    "length (filter is_Fetch (fetchData selectedCompany selectedMetric out 0)) \<le> MAX_RETRIES \<and>
     delays (fetchData selectedCompany selectedMetric out 0) =
       map (\<lambda>k. RETRY_DELAY * k)
         [1..<length (filter is_Fetch (fetchData selectedCompany selectedMetric out 0))] \<and>
     attempts_and_waits (fetchData selectedCompany selectedMetric out 0) =
       take (length (attempts_and_waits (fetchData selectedCompany selectedMetric out 0))) schedule \<and>
     Fetch 0 \<in> set (fetchData selectedCompany selectedMetric out 0) \<and>
     (Delay (RETRY_DELAY * 1) \<in> set (fetchData selectedCompany selectedMetric out 0)) =
       failed (out 0) \<and>
     (Fetch 1 \<in> set (fetchData selectedCompany selectedMetric out 0)) = failed (out 0) \<and>
     (Delay (RETRY_DELAY * 2) \<in> set (fetchData selectedCompany selectedMetric out 0)) =
       (failed (out 0) \<and> failed (out 1)) \<and>
     (Fetch 2 \<in> set (fetchData selectedCompany selectedMetric out 0)) =
       (failed (out 0) \<and> failed (out 1)) \<and>
     (\<forall>s. (SetError s \<in> set (fetchData selectedCompany selectedMetric out 0)) =
        (failed (out 0) \<and> failed (out 1) \<and>
         (\<exists>e. out 2 = Rejected e \<and> s = message_or_default e))) \<and>
     length (filter is_Fetch (fetchOptions me ma out 0)) \<le> MAX_RETRIES \<and>
     attempts_and_waits (fetchOptions me ma out 0) =
       take (length (attempts_and_waits (fetchOptions me ma out 0))) schedule \<and>
     (Fetch 0 \<in> set (fetchOptions me ma out 0)) = (carried_on me ma out 0 \<and> me 0) \<and>
     (Delay (RETRY_DELAY * 1) \<in> set (fetchOptions me ma out 0)) = carried_on me ma out 1 \<and>
     (Fetch 1 \<in> set (fetchOptions me ma out 0)) = (carried_on me ma out 1 \<and> me 1) \<and>
     (Delay (RETRY_DELAY * 2) \<in> set (fetchOptions me ma out 0)) = carried_on me ma out 2 \<and>
     (Fetch 2 \<in> set (fetchOptions me ma out 0)) = (carried_on me ma out 2 \<and> me 2) \<and>
     (\<forall>s. (SetError s \<in> set (fetchOptions me ma out 0)) =
        (carried_on me ma out 3 \<and> (\<exists>e. out 2 = Rejected e \<and> s = final_message e))) \<and>
     (\<forall>msg. final_message (Error msg) = msg @ '' Please try refreshing the page.'') \<and>
     (\<forall>p. final_message (NonError p) = ''Failed to load data'') \<and>
     (\<forall>msg. message_or_default (Error msg) =
        (if msg \<noteq> [] then msg else ''Failed to load data. Please try again.''))"
proof -
  let ?td = "fetchData selectedCompany selectedMetric out 0"
  let ?to = "fetchOptions me ma out 0"
  note a = fetchData_attempts [OF assms, of out]
  have d1: "length (filter is_Fetch ?td) \<le> MAX_RETRIES"
    using a by (rule conjunct1)
  have d2: "delays ?td = map (\<lambda>k. RETRY_DELAY * k) [1..<length (filter is_Fetch ?td)]"
    using a by (rule conjunct2)
  have d3: "attempts_and_waits ?td = take (length (attempts_and_waits ?td)) schedule"
    by (rule fetchData_skeleton [OF assms])
  have d4: "Fetch 0 \<in> set ?td"
    by (rule fetchData_events(1) [OF assms])
  have d5: "(Delay (RETRY_DELAY * 1) \<in> set ?td) = failed (out 0)"
    by (rule fetchData_events(2) [OF assms])
  have d6: "(Fetch 1 \<in> set ?td) = failed (out 0)"
    by (rule fetchData_events(3) [OF assms])
  have d7: "(Delay (RETRY_DELAY * 2) \<in> set ?td) = (failed (out 0) \<and> failed (out 1))"
    by (rule fetchData_events(4) [OF assms])
  have d8: "(Fetch 2 \<in> set ?td) = (failed (out 0) \<and> failed (out 1))"
    by (rule fetchData_events(5) [OF assms])
  have d9: "\<forall>s. (SetError s \<in> set ?td) =
        (failed (out 0) \<and> failed (out 1) \<and> (\<exists>e. out 2 = Rejected e \<and> s = message_or_default e))"
    by (intro allI) (rule fetchData_events(6) [OF assms])
  have o1: "length (filter is_Fetch ?to) \<le> MAX_RETRIES"
    using fetchOptions_attempts [of me ma out] by (rule conjunct1)
  have o2: "attempts_and_waits ?to = take (length (attempts_and_waits ?to)) schedule"
    by (rule fetchOptions_skeleton)
  have o3: "(Fetch 0 \<in> set ?to) = (carried_on me ma out 0 \<and> me 0)"
    by (rule fetchOptions_events(1))
  have o4: "(Delay (RETRY_DELAY * 1) \<in> set ?to) = carried_on me ma out 1"
    by (rule fetchOptions_events(2))
  have o5: "(Fetch 1 \<in> set ?to) = (carried_on me ma out 1 \<and> me 1)"
    by (rule fetchOptions_events(3))
  have o6: "(Delay (RETRY_DELAY * 2) \<in> set ?to) = carried_on me ma out 2"
    by (rule fetchOptions_events(4))
  have o7: "(Fetch 2 \<in> set ?to) = (carried_on me ma out 2 \<and> me 2)"
    by (rule fetchOptions_events(5))
  have o8: "\<forall>s. (SetError s \<in> set ?to) =
        (carried_on me ma out 3 \<and> (\<exists>e. out 2 = Rejected e \<and> s = final_message e))"
    by (intro allI) (rule fetchOptions_events(6))
  have m1: "\<forall>msg. final_message (Error msg) = msg @ '' Please try refreshing the page.''"
    by (simp add: final_message_def)
  have m2: "\<forall>p. final_message (NonError p) = ''Failed to load data''"
    by (simp add: final_message_def)
  have m3: "\<forall>msg. message_or_default (Error msg) =
        (if msg \<noteq> [] then msg else ''Failed to load data. Please try again.'')"
    by (simp add: message_or_default_def)
  show ?thesis
    by (rule conjI [OF d1 conjI [OF d2 conjI [OF d3 conjI [OF d4 conjI [OF d5 conjI [OF d6
         conjI [OF d7 conjI [OF d8 conjI [OF d9 conjI [OF o1 conjI [OF o2 conjI [OF o3
         conjI [OF o4 conjI [OF o5 conjI [OF o6 conjI [OF o7 conjI [OF o8 conjI [OF m1
         conjI [OF m2 m3]]]]]]]]]]]]]]]]]]])
qed

text \<open>
  Three attempts that all fail with \<open>boom\<close>: both waits are made, and each wrapper shows its
  own text.
\<close>

theorem retry_policy_witness:
  "''Acme Co'' \<noteq> [] \<and> ''revenue'' \<noteq> [] \<and>
   Delay 2000 \<in> set (fetchData ''Acme Co'' ''revenue'' (always_rejected ''boom'') 0) \<and>
   Delay 4000 \<in> set (fetchData ''Acme Co'' ''revenue'' (always_rejected ''boom'') 0) \<and>
   SetError ''boom'' \<in> set (fetchData ''Acme Co'' ''revenue'' (always_rejected ''boom'') 0) \<and>
   Delay 2000 \<in> set (fetchOptions always_mounted always_mounted (always_rejected ''boom'') 0) \<and>
   Delay 4000 \<in> set (fetchOptions always_mounted always_mounted (always_rejected ''boom'') 0) \<and>
   SetError ''boom Please try refreshing the page.''
     \<in> set (fetchOptions always_mounted always_mounted (always_rejected ''boom'') 0)"
proof -
  have n: "''Acme Co'' \<noteq> []" "''revenue'' \<noteq> []" by simp_all
  have r: "always_rejected ''boom'' 0 = Rejected (Error ''boom'')"
    "always_rejected ''boom'' 1 = Rejected (Error ''boom'')"
    "always_rejected ''boom'' 2 = Rejected (Error ''boom'')"
    by (simp_all add: always_rejected_def)
  have c: "carried_on always_mounted always_mounted (always_rejected ''boom'') 1"
    "carried_on always_mounted always_mounted (always_rejected ''boom'') 2"
    "carried_on always_mounted always_mounted (always_rejected ''boom'') 3"
    by (simp_all add: carried_on_numerals always_mounted_def always_rejected_def)
  have f: "final_message (Error ''boom'') = ''boom Please try refreshing the page.''"
    "message_or_default (Error ''boom'') = ''boom''"
    by (simp_all add: final_message_def message_or_default_def)
  from retry_policy [OF n, of "always_rejected ''boom''" always_mounted always_mounted] r c f n
  show ?thesis by (simp add: RETRY_DELAY_def)
qed

text \<open>
  Claim C7 as stated has the final error of every retry wrapper end in a suggestion to
  refresh the page. The error that \<open>fetchData\<close> shows after three failures is the bare message.
\<close>

theorem fetchData_error_has_no_refresh_suffix:
  "fetchData ''Acme Co'' ''revenue'' (always_rejected ''boom'') 0 =
     [Fetch 0, Delay 2000, Fetch 1, Delay 4000, Fetch 2, SetError ''boom''] \<and>
   ''boom'' \<noteq> ''boom Please try refreshing the page.''"
  by code_simp

end
